theory Spec2Isabelle
  imports Main "HOL-Library.AList"
begin

section \<open>Numbers, object identity and released resources\<close>

text \<open>
  The TypeScript sources compute with \<^verbatim>\<open>number\<close>. The radii, sizes and steps of the
  circle grid are integer-valued (the settings tree edits them in steps of 10), and on
  integers below \<open>2 ^ 53\<close> the arithmetic of a double is exact, so \<^verbatim>\<open>number\<close> is
  modelled as \<^typ>\<open>int\<close>. A value of type \<^verbatim>\<open>number | undefined\<close> is an \<^typ>\<open>int option\<close>.

  Every object that the sources create with \<^verbatim>\<open>new\<close> or with an object literal, and
  whose identity is observed afterwards (by \<^verbatim>\<open>!==\<close>, or by being handed to
  \<^verbatim>\<open>dispose\<close>), gets a fresh reference from the counter \<open>next_ref\<close>. The list
  \<open>disposed\<close> records, in call order and with repetitions, the references on which
  \<^verbatim>\<open>dispose()\<close> has been invoked.
\<close>

type_synonym ref = nat

record heap =
  next_ref :: ref
  disposed :: "ref list"

definition fresh :: "heap \<Rightarrow> ref \<times> heap" where
  "fresh h = (next_ref h, h\<lparr>next_ref := Suc (next_ref h)\<rparr>)"

definition dispose_ref :: "ref \<Rightarrow> heap \<Rightarrow> heap" where
  "dispose_ref r h = h\<lparr>disposed := disposed h @ [r]\<rparr>"

section \<open>RenderableCircleList\<close>

text \<open>
  \<^verbatim>\<open>marker.scale\<close> is an object \<^verbatim>\<open>{ x, y, z }\<close>; \<^verbatim>\<open>update\<close> compares two such
  objects with \<^verbatim>\<open>!==\<close>, that is by identity, so the model keeps the identity of the
  object next to its three numbers. Of a \<^verbatim>\<open>Marker\<close> only \<^verbatim>\<open>scale\<close> is read by the
  circle list; the header stamp stands for the fields that do not affect geometry.
\<close>

record Vector3_obj =
  vec_ref :: ref
  vec_x :: int
  vec_y :: int
  vec_z :: int

record Marker =
  marker_stamp :: int
  marker_scale :: Vector3_obj

text \<open>
  A \<^verbatim>\<open>BufferGeometry\<close> built by \<^verbatim>\<open>setFromPoints\<close> from the 32 spaced points of a
  circle is determined by the radius of that circle. A \<^verbatim>\<open>LineLoop\<close> refers to its
  geometry. The children of the \<^verbatim>\<open>Group\<close> are the references of the line loops.
\<close>

record BufferGeometry =
  geom_ref :: ref
  geom_radius :: int

record LineLoop =
  loop_ref :: ref
  loop_geometry :: ref

record RenderableCircleList =
  rcl_marker :: Marker
  geometries :: "BufferGeometry list"
  circles :: "LineLoop list"
  group_children :: "ref list"
  material :: ref

text \<open>
  The loop of \<^verbatim>\<open>_range\<close>:
  \<^verbatim>\<open>for (let i = rangeStart; rangeStep > 0 ? i < rangeStop : i > rangeStop; i += rangeStep)
    result.push(i);\<close>
  With \<open>rangeStep = 0\<close> and \<open>rangeStart > rangeStop\<close> it never leaves; not returning is
  the value \<open>None\<close>.
\<close>

partial_function (option) range_loop :: "int \<Rightarrow> int \<Rightarrow> int \<Rightarrow> int list \<Rightarrow> int list option" where
  "range_loop i rangeStop rangeStep result =
     (if (if rangeStep > 0 then i < rangeStop else i > rangeStop)
      then range_loop (i + rangeStep) rangeStop rangeStep (result @ [i])
      else Some result)"

declare range_loop.simps [code]

text \<open>\<^verbatim>\<open>_range(start, stop, step)\<close>.\<close>

definition rangeJS :: "int \<Rightarrow> int option \<Rightarrow> int option \<Rightarrow> int list option" where
  "rangeJS start stop step =
     (let (rangeStart, rangeStop) = (case stop of None \<Rightarrow> (0, start) | Some s \<Rightarrow> (start, s));
          rangeStep = (case step of None \<Rightarrow> 1 | Some s \<Rightarrow> s)
      in if (rangeStep > 0 \<and> rangeStart \<ge> rangeStop) \<or> (rangeStep < 0 \<and> rangeStart \<le> rangeStop)
         then Some []
         else range_loop rangeStart rangeStop rangeStep [])"

text \<open>
  \<^verbatim>\<open>Object3D.add\<close> of three.js detaches an object from its parent before it appends it,
  so adding a child again moves it to the end; \<^verbatim>\<open>add(...objects)\<close> adds them in order.
\<close>

definition group_add :: "ref \<Rightarrow> ref list \<Rightarrow> ref list" where
  "group_add c children = filter (\<lambda>d. d \<noteq> c) children @ [c]"

text \<open>
  One round of the loop of \<^verbatim>\<open>_setCircles\<close> for the radius \<open>r\<close>: a new geometry, a new
  line loop on it, both pushed, and every circle so far added to the group.
\<close>

definition add_circle :: "int \<Rightarrow> RenderableCircleList \<times> heap \<Rightarrow> RenderableCircleList \<times> heap" where
  "add_circle r = (\<lambda>(this, h).
     let (g, h1) = fresh h;
         (c, h2) = fresh h1;
         geometry = \<lparr>geom_ref = g, geom_radius = r\<rparr>;
         circle = \<lparr>loop_ref = c, loop_geometry = g\<rparr>;
         cs = circles this @ [circle]
     in (this\<lparr>geometries := geometries this @ [geometry],
              circles := cs,
              group_children := fold group_add (map loop_ref cs) (group_children this)\<rparr>, h2))"

text \<open>
  \<^verbatim>\<open>_setCircles(minRadius, maxRadius, radiusStep)\<close>. The index loop visits
  \<^verbatim>\<open>radiuses[0]\<close> to \<^verbatim>\<open>radiuses[length - 1]\<close>, none of which is undefined.
\<close>

definition setCircles ::
  "int \<Rightarrow> int \<Rightarrow> int \<Rightarrow> RenderableCircleList \<times> heap \<Rightarrow> (RenderableCircleList \<times> heap) option" where
  "setCircles minRadius maxRadius radiusStep st =
     (case rangeJS minRadius (Some maxRadius) (Some radiusStep) of
        None \<Rightarrow> None
      | Some radiuses \<Rightarrow> Some (fold add_circle radiuses st))"

text \<open>The constructor: empty lists, a new group and material, then \<^verbatim>\<open>_setCircles\<close>.\<close>

definition new_RenderableCircleList :: "Marker \<Rightarrow> heap \<Rightarrow> (RenderableCircleList \<times> heap) option" where
  "new_RenderableCircleList m h =
     (let (mat, h1) = fresh h;
          this = \<lparr>rcl_marker = m, geometries = [], circles = [], group_children = [], material = mat\<rparr>;
          scale = marker_scale m
      in setCircles (vec_x scale) (vec_y scale) (vec_z scale) (this, h1))"

text \<open>\<^verbatim>\<open>dispose()\<close>: every geometry, then the material.\<close>

definition dispose_geometries :: "RenderableCircleList \<Rightarrow> heap \<Rightarrow> heap" where
  "dispose_geometries this h = fold dispose_ref (map geom_ref (geometries this)) h"

definition rcl_dispose :: "RenderableCircleList \<Rightarrow> heap \<Rightarrow> heap" where
  "rcl_dispose this h = dispose_ref (material this) (dispose_geometries this h)"

text \<open>
  Modelled from the spec: \<^verbatim>\<open>RenderableMarker.update\<close>, the \<^verbatim>\<open>super.update\<close> of the circle
  list, is not among the sources. The specification says that
  \<^verbatim>\<open>update(newData, receiveTime)\<close> replaces the renderable's logical payload.
\<close>

definition RenderableMarker_update :: "Marker \<Rightarrow> RenderableCircleList \<Rightarrow> RenderableCircleList" where
  "RenderableMarker_update newMarker this = this\<lparr>rcl_marker := newMarker\<rparr>"

text \<open>\<^verbatim>\<open>update(newMarker, receiveTime)\<close>.\<close>

definition rcl_update ::
  "Marker \<Rightarrow> RenderableCircleList \<times> heap \<Rightarrow> (RenderableCircleList \<times> heap) option" where
  "rcl_update newMarker = (\<lambda>(this0, h).
     let prevScale = marker_scale (rcl_marker this0);
         this = RenderableMarker_update newMarker this0;
         scale = marker_scale (rcl_marker this)
     in if vec_ref prevScale \<noteq> vec_ref scale
        then setCircles (vec_x scale) (vec_y scale) (vec_z scale)
               (this\<lparr>geometries := [], circles := [], group_children := []\<rparr>,
                dispose_geometries this h)
        else Some (this, h))"

section \<open>CircleGrids\<close>

text \<open>
  An entry of \<^verbatim>\<open>renderer.config.layers\<close> is a \<^verbatim>\<open>Partial<LayerSettingsCircleGrid>\<close>
  (or the settings of another kind of layer, told apart by \<^verbatim>\<open>layerId\<close>): every property
  may be absent, which is \<open>None\<close>. \<^verbatim>\<open>LayerSettingsCircleGrid\<close> itself has every
  property but \<^verbatim>\<open>frameId\<close> and \<^verbatim>\<open>order\<close>.
\<close>

record PartialLayerSettings =
  cfg_visible :: "bool option"
  cfg_frameLocked :: "bool option"
  cfg_label :: "string option"
  cfg_instanceId :: "string option"
  cfg_layerId :: "string option"
  cfg_frameId :: "string option"
  cfg_minSize :: "int option"
  cfg_maxSize :: "int option"
  cfg_step :: "int option"
  cfg_order :: "int option"

record LayerSettingsCircleGrid =
  visible :: bool
  frameLocked :: bool
  label :: string
  instanceId :: string
  layerId :: string
  frameId :: "string option"
  minSize :: int
  maxSize :: int
  step :: int
  order :: "int option"

definition LAYER_ID :: string where "LAYER_ID = ''foxglove.CircleGrid''"
definition MIN_SIZE :: int where "MIN_SIZE = 30"
definition DEFAULT_SIZE :: int where "DEFAULT_SIZE = 100"
definition MAX_SIZE :: int where "MAX_SIZE = 300"
definition DEFAULT_STEP :: int where "DEFAULT_STEP = 20"
definition MIN_STEP :: int where "MIN_STEP = 10"
definition MAX_STEP :: int where "MAX_STEP = 40"

definition DEFAULT_SETTINGS :: LayerSettingsCircleGrid where
  "DEFAULT_SETTINGS =
     \<lparr>visible = True, frameLocked = True, label = ''CircleGrid'', instanceId = ''invalid'',
      layerId = LAYER_ID, frameId = None, minSize = MIN_SIZE, maxSize = DEFAULT_SIZE,
      step = DEFAULT_STEP, order = None\<rparr>"

text \<open>\<^verbatim>\<open>d ?? v\<close> read from the right: the value if present, the default otherwise.\<close>

definition orElse :: "'a option \<Rightarrow> 'a \<Rightarrow> 'a" where
  "orElse v d = (case v of None \<Rightarrow> d | Some a \<Rightarrow> a)"

text \<open>The spread \<^verbatim>\<open>{ ...base, ...settings }\<close>: a property of \<open>settings\<close> wins.\<close>

definition spread :: "LayerSettingsCircleGrid \<Rightarrow> PartialLayerSettings \<Rightarrow> LayerSettingsCircleGrid" where
  "spread base p =
     \<lparr>visible = orElse (cfg_visible p) (visible base),
      frameLocked = orElse (cfg_frameLocked p) (frameLocked base),
      label = orElse (cfg_label p) (label base),
      instanceId = orElse (cfg_instanceId p) (instanceId base),
      layerId = orElse (cfg_layerId p) (layerId base),
      frameId = (case cfg_frameId p of None \<Rightarrow> frameId base | Some f \<Rightarrow> Some f),
      minSize = orElse (cfg_minSize p) (minSize base),
      maxSize = orElse (cfg_maxSize p) (maxSize base),
      step = orElse (cfg_step p) (step base),
      order = (case cfg_order p of None \<Rightarrow> order base | Some n \<Rightarrow> Some n)\<rparr>"


record CircleGridRenderable =
  settingsPath :: "string list"
  settings :: LayerSettingsCircleGrid
  circleList :: RenderableCircleList

text \<open>
  The state of the extension: \<^verbatim>\<open>renderer.config.layers\<close> (an object, its entries in
  insertion order), the registry \<^verbatim>\<open>this.renderables\<close> (a \<^verbatim>\<open>Map\<close>), the children of the
  extension in the scene (each renderable named by its instance id), the heap, and
  how often \<^verbatim>\<open>updateSettingsTree\<close> and \<^verbatim>\<open>updateCustomLayersCount\<close> have been requested.
\<close>

record CircleGrids =
  config_layers :: "(string \<times> PartialLayerSettings) list"
  renderables :: "(string \<times> CircleGridRenderable) list"
  scene_children :: "string list"
  gpu :: heap
  settings_tree_updates :: nat
  layers_count_updates :: nat

text \<open>\<^verbatim>\<open>createMarker(settings)\<close>: the object literal of \<^verbatim>\<open>scale\<close> is a new object.\<close>

definition createMarker :: "LayerSettingsCircleGrid \<Rightarrow> heap \<Rightarrow> Marker \<times> heap" where
  "createMarker st h =
     (let (r, h1) = fresh h
      in (\<lparr>marker_stamp = 0,
           marker_scale = \<lparr>vec_ref = r, vec_x = minSize st, vec_y = maxSize st, vec_z = step st\<rparr>\<rparr>, h1))"

text \<open>\<^verbatim>\<open>_createRenderable(instanceId, settings)\<close>.\<close>

definition createRenderable ::
  "string \<Rightarrow> LayerSettingsCircleGrid \<Rightarrow> CircleGrids \<Rightarrow> (CircleGridRenderable \<times> CircleGrids) option" where
  "createRenderable iid st this =
     (let (marker, h1) = createMarker st (gpu this)
      in case new_RenderableCircleList marker h1 of
           None \<Rightarrow> None
         | Some (cl, h2) \<Rightarrow>
             let renderable = \<lparr>settingsPath = [''layers'', iid], settings = st, circleList = cl\<rparr>
             in Some (renderable,
                      this\<lparr>scene_children := scene_children this @ [iid],
                           renderables := AList.update iid renderable (renderables this),
                           gpu := h2\<rparr>))"

text \<open>
  \<^verbatim>\<open>_updateGrid(instanceId, settings)\<close>. The renderable is an object held by the
  \<^verbatim>\<open>Map\<close>; what the source writes into it is written back under its key.
\<close>

definition updateGrid ::
  "string \<Rightarrow> PartialLayerSettings option \<Rightarrow> CircleGrids \<Rightarrow> CircleGrids option" where
  "updateGrid iid sts this =
     (case sts of
        None \<Rightarrow>
          (case map_of (renderables this) iid of
             None \<Rightarrow> Some this
           | Some renderable \<Rightarrow>
               Some (this\<lparr>gpu := rcl_dispose (circleList renderable) (gpu this),
                         scene_children := removeAll iid (scene_children this),
                         renderables := AList.delete iid (renderables this)\<rparr>))
      | Some p \<Rightarrow>
          (let newSettings = spread DEFAULT_SETTINGS p
           in case (case map_of (renderables this) iid of
                      None \<Rightarrow> createRenderable iid newSettings this
                    | Some r \<Rightarrow> Some (r, this)) of
                None \<Rightarrow> None
              | Some (renderable, this1) \<Rightarrow>
                  (let prevSettings = settings renderable;
                       markersEqual = (minSize newSettings = minSize prevSettings
                                       \<and> maxSize newSettings = maxSize prevSettings
                                       \<and> step newSettings = step prevSettings);
                       renderable1 = renderable\<lparr>settings := newSettings\<rparr>
                   in if \<not> markersEqual
                      then (let (marker, h1) = createMarker newSettings (gpu this1)
                            in case rcl_update marker (circleList renderable1, h1) of
                                 None \<Rightarrow> None
                               | Some (cl, h2) \<Rightarrow>
                                   Some (this1\<lparr>renderables :=
                                                  AList.update iid (renderable1\<lparr>circleList := cl\<rparr>)
                                                    (renderables this1),
                                               gpu := h2\<rparr>))
                      else Some (this1\<lparr>renderables :=
                                          AList.update iid renderable1 (renderables this1)\<rparr>))))"

text \<open>
  An entry of the settings tree: the path, and of the node its label, visibility,
  order, the values of its three number fields and the ids of its actions.
\<close>

record SettingsTreeEntry =
  entry_path :: "string list"
  entry_label :: string
  entry_visible :: bool
  entry_order :: "int option"
  entry_fields :: "(string \<times> int option) list"
  entry_actions :: "string list"

text \<open>
  \<^verbatim>\<open>settingsNodes()\<close>: the loop over \<^verbatim>\<open>Object.entries(this.renderer.config.layers)\<close>,
  which were read before the loop started.
\<close>

fun settingsNodes_loop ::
  "(string \<times> PartialLayerSettings) list \<Rightarrow> SettingsTreeEntry list \<Rightarrow> CircleGrids
     \<Rightarrow> (SettingsTreeEntry list \<times> CircleGrids) option" where
  "settingsNodes_loop [] entries this = Some (entries, this)"
| "settingsNodes_loop ((iid, config) # rest) entries this =
     (if cfg_layerId config \<noteq> Some LAYER_ID then settingsNodes_loop rest entries this
      else
        let entry = \<lparr>entry_path = [''layers'', iid],
                     entry_label = orElse (cfg_label config) ''Grid'',
                     entry_visible = orElse (cfg_visible config) (visible DEFAULT_SETTINGS),
                     entry_order = cfg_order config,
                     entry_fields = [(''minSize'', cfg_minSize config),
                                     (''maxSize'', cfg_maxSize config),
                                     (''step'', cfg_step config)],
                     entry_actions = [''delete'']\<rparr>
        in case (if map_of (renderables this) iid = None
                 then updateGrid iid (Some config) this else Some this) of
             None \<Rightarrow> None
           | Some this1 \<Rightarrow> settingsNodes_loop rest (entries @ [entry]) this1)"

definition settingsNodes :: "CircleGrids \<Rightarrow> (SettingsTreeEntry list \<times> CircleGrids) option" where
  "settingsNodes this = settingsNodes_loop (config_layers this) [] this"

text \<open>
  The value carried by an \<^verbatim>\<open>update\<close> action is a number, a Boolean or a string. A
  \<^verbatim>\<open>SettingsTreeAction\<close> is an \<^verbatim>\<open>update\<close> with a path and a value, or a
  \<^verbatim>\<open>perform-node-action\<close> with a path and an id.
\<close>

datatype jsvalue = JNum int | JBool bool | JStr string

datatype SettingsTreeAction =
  Update "string list" jsvalue
| PerformNodeAction "string list" string

text \<open>
  Modelled from the spec: \<^verbatim>\<open>SceneExtension.saveSetting\<close> is not among the sources. The
  specification says that a user edit updates the persisted configuration and
  regenerates the settings tree, and that an action referring to a non-existent path or
  key is a no-op. \<open>set_field\<close> writes one property of an entry; a property or a kind of
  value that the entry type does not have leaves the entry as it is.
\<close>

definition set_field :: "string \<Rightarrow> jsvalue \<Rightarrow> PartialLayerSettings \<Rightarrow> PartialLayerSettings" where
  "set_field f v c =
     (case v of
        JNum n \<Rightarrow>
          (if f = ''minSize'' then c\<lparr>cfg_minSize := Some n\<rparr>
           else if f = ''maxSize'' then c\<lparr>cfg_maxSize := Some n\<rparr>
           else if f = ''step'' then c\<lparr>cfg_step := Some n\<rparr>
           else if f = ''order'' then c\<lparr>cfg_order := Some n\<rparr>
           else c)
      | JBool b \<Rightarrow>
          (if f = ''visible'' then c\<lparr>cfg_visible := Some b\<rparr>
           else if f = ''frameLocked'' then c\<lparr>cfg_frameLocked := Some b\<rparr>
           else c)
      | JStr t \<Rightarrow>
          (if f = ''label'' then c\<lparr>cfg_label := Some t\<rparr>
           else if f = ''instanceId'' then c\<lparr>cfg_instanceId := Some t\<rparr>
           else if f = ''layerId'' then c\<lparr>cfg_layerId := Some t\<rparr>
           else if f = ''frameId'' then c\<lparr>cfg_frameId := Some t\<rparr>
           else c))"

definition saveSetting :: "string list \<Rightarrow> jsvalue \<Rightarrow> CircleGrids \<Rightarrow> CircleGrids" where
  "saveSetting path v this =
     (if length path = 3 \<and> path ! 0 = ''layers''
      then (case map_of (config_layers this) (path ! 1) of
              None \<Rightarrow> this
            | Some c \<Rightarrow>
                this\<lparr>config_layers := AList.update (path ! 1) (set_field (path ! 2) v c) (config_layers this),
                     settings_tree_updates := Suc (settings_tree_updates this)\<rparr>)
      else this)"

text \<open>\<^verbatim>\<open>handleSettingsAction(action)\<close>.\<close>

fun handleSettingsAction :: "SettingsTreeAction \<Rightarrow> CircleGrids \<Rightarrow> CircleGrids option" where
  "handleSettingsAction (PerformNodeAction path aid) this =
     (if length path = 2 \<and> aid = ''delete''
      then (let iid = path ! 1;
                this1 = this\<lparr>config_layers := AList.delete iid (config_layers this)\<rparr>
            in case updateGrid iid None this1 of
                 None \<Rightarrow> None
               | Some this2 \<Rightarrow>
                   Some (this2\<lparr>settings_tree_updates := Suc (settings_tree_updates this2),
                              layers_count_updates := Suc (layers_count_updates this2)\<rparr>))
      else Some this)"
| "handleSettingsAction (Update path v) this =
     (if length path \<noteq> 3 then Some this
      else (let this1 = saveSetting path v this;
                iid = path ! 1;
                sts = map_of (config_layers this1) iid
            in updateGrid iid sts this1))"



text \<open>
  The constructor: no renderables yet, then \<^verbatim>\<open>_updateGrid\<close> for every entry of the
  configuration whose \<^verbatim>\<open>layerId\<close> is that of a circle grid.
\<close>

fun load_layers :: "(string \<times> PartialLayerSettings) list \<Rightarrow> CircleGrids \<Rightarrow> CircleGrids option" where
  "load_layers [] this = Some this"
| "load_layers ((iid, entry) # rest) this =
     (if cfg_layerId entry = Some LAYER_ID
      then (case updateGrid iid (Some entry) this of
              None \<Rightarrow> None
            | Some this1 \<Rightarrow> load_layers rest this1)
      else load_layers rest this)"

definition new_CircleGrids :: "(string \<times> PartialLayerSettings) list \<Rightarrow> CircleGrids option" where
  "new_CircleGrids layers =
     load_layers layers
       \<lparr>config_layers = layers, renderables = [], scene_children = [],
        gpu = \<lparr>next_ref = 0, disposed = []\<rparr>,
        settings_tree_updates = 0, layers_count_updates = 0\<rparr>"




section \<open>Normalization of object-list messages\<close>

text \<open>
  The message types of \<^verbatim>\<open>../ros\<close> and the normalizers of \<^verbatim>\<open>../normalizeMessages\<close> are
  not among the sources. The types below have the fields that the sources read, with
  the kinds that the defaults in \<^verbatim>\<open>normalizeLDObject\<close> give them. A
  \<^verbatim>\<open>PartialMessage<T>\<close> has every field of \<open>T\<close> optional, at every depth; an absent field
  is \<open>None\<close>. Numbers are \<^typ>\<open>int\<close>: normalization copies them and computes nothing.
\<close>

record Time =
  sec :: int
  nsec :: int

record PartialTime =
  p_sec :: "int option"
  p_nsec :: "int option"

record Header =
  frame_id :: string
  stamp :: Time

record PartialHeader =
  p_frame_id :: "string option"
  p_stamp :: "PartialTime option"

record Vector3 =
  x3 :: int
  y3 :: int
  z3 :: int

record PartialVector3 =
  p_x3 :: "int option"
  p_y3 :: "int option"
  p_z3 :: "int option"

record Quaternion =
  qx :: int
  qy :: int
  qz :: int
  qw :: int

record PartialQuaternion =
  p_qx :: "int option"
  p_qy :: "int option"
  p_qz :: "int option"
  p_qw :: "int option"

record Pose =
  position :: Vector3
  orientation :: Quaternion

record PartialPose =
  p_position :: "PartialVector3 option"
  p_orientation :: "PartialQuaternion option"

record Twist =
  linear :: Vector3
  angular :: Vector3

record PartialTwist =
  p_linear :: "PartialVector3 option"
  p_angular :: "PartialVector3 option"

record ColorRGBA =
  red :: int
  green :: int
  blue :: int
  alpha :: int

record PartialColorRGBA =
  p_red :: "int option"
  p_green :: "int option"
  p_blue :: "int option"
  p_alpha :: "int option"

text \<open>\<^verbatim>\<open>LDObject\<close>; the field \<open>f\<close> of the source is \<open>obj_f\<close>.\<close>

record LDObject =
  obj_header :: Header
  obj_id :: int
  obj_tracking_age :: int
  obj_Age :: Time
  obj_lifetime :: Time
  obj_object_status :: string
  obj_confidence :: int
  obj_color :: ColorRGBA
  obj_pose_reliable :: bool
  obj_pose :: Pose
  obj_pose_var :: Vector3
  obj_gps_pos :: Vector3
  obj_gps_var :: Vector3
  obj_tracking_points :: Vector3
  obj_tracking_point_type :: int
  obj_jsk_pose :: Pose
  obj_yaw :: int
  obj_yaw_var :: int
  obj_heading_angle :: int
  obj_heading_angle_var :: int
  obj_pitch :: int
  obj_pitch_var :: int
  obj_dimensions :: Vector3
  obj_dimensions_var :: Vector3
  obj_clustered_dimensions :: Vector3
  obj_velocity :: Twist
  obj_velocity_var :: Twist
  obj_abs_velocity :: int
  obj_abs_velocity_var :: int
  obj_rel_velocity :: Twist
  obj_rel_velocity_var :: Twist
  obj_rel_abs_velocity :: int
  obj_rel_abs_velocity_var :: int
  obj_acceleration :: Twist
  obj_acceleration_var :: Twist
  obj_abs_acceleration :: int
  obj_abs_acceleration_var :: int
  obj_rel_acceleration :: Twist
  obj_rel_acceleration_var :: Twist
  obj_rel_abs_acceleration :: int
  obj_rel_abs_acceleration_var :: int
  obj_lane_relation :: int
  obj_visibility :: int
  obj_solid_angle :: int
  obj_reflectivity :: int
  obj_occlusion :: string
  obj_occlusion_l :: string
  obj_occlusion_h :: string
  obj_occlusion_w :: string
  obj_occlusion_lowerpart :: bool
  obj_validity :: bool
  obj_has_sun :: bool
  obj_relation_type :: int
  obj_relation_id :: int
  obj_has_child :: bool
  obj_class_label_true :: string
  obj_class_label_pred :: string
  obj_target_added :: bool
  obj_target_deleted :: bool
  obj_subclass_label_true :: string
  obj_subclass_label_pred :: string
  obj_behavior_state :: int

text \<open>\<^verbatim>\<open>PartialMessage<LDObject>\<close>; the field \<open>f\<close> of the source is \<open>pobj_f\<close>.\<close>

record PartialLDObject =
  pobj_header :: "PartialHeader option"
  pobj_id :: "int option"
  pobj_tracking_age :: "int option"
  pobj_Age :: "PartialTime option"
  pobj_lifetime :: "PartialTime option"
  pobj_object_status :: "string option"
  pobj_confidence :: "int option"
  pobj_color :: "PartialColorRGBA option"
  pobj_pose_reliable :: "bool option"
  pobj_pose :: "PartialPose option"
  pobj_pose_var :: "PartialVector3 option"
  pobj_gps_pos :: "PartialVector3 option"
  pobj_gps_var :: "PartialVector3 option"
  pobj_tracking_points :: "PartialVector3 option"
  pobj_tracking_point_type :: "int option"
  pobj_jsk_pose :: "PartialPose option"
  pobj_yaw :: "int option"
  pobj_yaw_var :: "int option"
  pobj_heading_angle :: "int option"
  pobj_heading_angle_var :: "int option"
  pobj_pitch :: "int option"
  pobj_pitch_var :: "int option"
  pobj_dimensions :: "PartialVector3 option"
  pobj_dimensions_var :: "PartialVector3 option"
  pobj_clustered_dimensions :: "PartialVector3 option"
  pobj_velocity :: "PartialTwist option"
  pobj_velocity_var :: "PartialTwist option"
  pobj_abs_velocity :: "int option"
  pobj_abs_velocity_var :: "int option"
  pobj_rel_velocity :: "PartialTwist option"
  pobj_rel_velocity_var :: "PartialTwist option"
  pobj_rel_abs_velocity :: "int option"
  pobj_rel_abs_velocity_var :: "int option"
  pobj_acceleration :: "PartialTwist option"
  pobj_acceleration_var :: "PartialTwist option"
  pobj_abs_acceleration :: "int option"
  pobj_abs_acceleration_var :: "int option"
  pobj_rel_acceleration :: "PartialTwist option"
  pobj_rel_acceleration_var :: "PartialTwist option"
  pobj_rel_abs_acceleration :: "int option"
  pobj_rel_abs_acceleration_var :: "int option"
  pobj_lane_relation :: "int option"
  pobj_visibility :: "int option"
  pobj_solid_angle :: "int option"
  pobj_reflectivity :: "int option"
  pobj_occlusion :: "string option"
  pobj_occlusion_l :: "string option"
  pobj_occlusion_h :: "string option"
  pobj_occlusion_w :: "string option"
  pobj_occlusion_lowerpart :: "bool option"
  pobj_validity :: "bool option"
  pobj_has_sun :: "bool option"
  pobj_relation_type :: "int option"
  pobj_relation_id :: "int option"
  pobj_has_child :: "bool option"
  pobj_class_label_true :: "string option"
  pobj_class_label_pred :: "string option"
  pobj_target_added :: "bool option"
  pobj_target_deleted :: "bool option"
  pobj_subclass_label_true :: "string option"
  pobj_subclass_label_pred :: "string option"
  pobj_behavior_state :: "int option"

record LDObjectList =
  list_header :: Header
  list_frame_number :: int
  list_objects :: "LDObject list"

record PartialLDObjectList =
  plist_header :: "PartialHeader option"
  plist_frame_number :: "int option"
  plist_objects :: "PartialLDObject option list option"

text \<open>The optional chaining \<^verbatim>\<open>object?.f\<close>.\<close>

definition chain :: "'a option \<Rightarrow> ('a \<Rightarrow> 'b option) \<Rightarrow> 'b option" where
  "chain object f = (case object of None \<Rightarrow> None | Some v \<Rightarrow> f v)"

text \<open>
  Modelled from the spec: \<^verbatim>\<open>normalizeTime\<close>, \<^verbatim>\<open>normalizeHeader\<close>, \<^verbatim>\<open>normalizeVector3\<close>,
  \<^verbatim>\<open>normalizePose\<close>, \<^verbatim>\<open>normalizeTwist\<close> and \<^verbatim>\<open>normalizeColorRGBA\<close> of
  \<^verbatim>\<open>../normalizeMessages\<close> are not among the sources. The specification says that a
  normalizer produces a value with every field populated, using a fixed default per
  field: numeric defaults 0, string defaults empty, nested structures recursively
  normalized, timestamps default to a canonical zero time.
\<close>

definition normalizeTime :: "PartialTime option \<Rightarrow> Time" where
  "normalizeTime t = \<lparr>sec = orElse (chain t p_sec) 0, nsec = orElse (chain t p_nsec) 0\<rparr>"

definition normalizeHeader :: "PartialHeader option \<Rightarrow> Header" where
  "normalizeHeader h =
     \<lparr>frame_id = orElse (chain h p_frame_id) '''', stamp = normalizeTime (chain h p_stamp)\<rparr>"

definition normalizeVector3 :: "PartialVector3 option \<Rightarrow> Vector3" where
  "normalizeVector3 v =
     \<lparr>x3 = orElse (chain v p_x3) 0, y3 = orElse (chain v p_y3) 0, z3 = orElse (chain v p_z3) 0\<rparr>"

definition normalizeQuaternion :: "PartialQuaternion option \<Rightarrow> Quaternion" where
  "normalizeQuaternion q =
     \<lparr>qx = orElse (chain q p_qx) 0, qy = orElse (chain q p_qy) 0,
      qz = orElse (chain q p_qz) 0, qw = orElse (chain q p_qw) 0\<rparr>"

definition normalizePose :: "PartialPose option \<Rightarrow> Pose" where
  "normalizePose p =
     \<lparr>position = normalizeVector3 (chain p p_position),
      orientation = normalizeQuaternion (chain p p_orientation)\<rparr>"

definition normalizeTwist :: "PartialTwist option \<Rightarrow> Twist" where
  "normalizeTwist t =
     \<lparr>linear = normalizeVector3 (chain t p_linear), angular = normalizeVector3 (chain t p_angular)\<rparr>"

definition normalizeColorRGBA :: "PartialColorRGBA option \<Rightarrow> ColorRGBA" where
  "normalizeColorRGBA c =
     \<lparr>red = orElse (chain c p_red) 0, green = orElse (chain c p_green) 0,
      blue = orElse (chain c p_blue) 0, alpha = orElse (chain c p_alpha) 0\<rparr>"

text \<open>\<^verbatim>\<open>normalizeLDObject(object)\<close>.\<close>

definition normalizeLDObject :: "PartialLDObject option \<Rightarrow> LDObject" where
  "normalizeLDObject object =
     \<lparr>obj_header = normalizeHeader (chain object pobj_header),
      obj_id = orElse (chain object pobj_id) 0,
      obj_tracking_age = orElse (chain object pobj_tracking_age) 0,
      obj_Age = normalizeTime (chain object pobj_Age),
      obj_lifetime = normalizeTime (chain object pobj_lifetime),
      obj_object_status = orElse (chain object pobj_object_status) '''',
      obj_confidence = orElse (chain object pobj_confidence) 0,
      obj_color = normalizeColorRGBA (chain object pobj_color),
      obj_pose_reliable = orElse (chain object pobj_pose_reliable) False,
      obj_pose = normalizePose (chain object pobj_pose),
      obj_pose_var = normalizeVector3 (chain object pobj_pose_var),
      obj_gps_pos = normalizeVector3 (chain object pobj_gps_pos),
      obj_gps_var = normalizeVector3 (chain object pobj_gps_var),
      obj_tracking_points = normalizeVector3 (chain object pobj_tracking_points),
      obj_tracking_point_type = orElse (chain object pobj_tracking_point_type) 0,
      obj_jsk_pose = normalizePose (chain object pobj_jsk_pose),
      obj_yaw = orElse (chain object pobj_yaw) 0,
      obj_yaw_var = orElse (chain object pobj_yaw_var) 0,
      obj_heading_angle = orElse (chain object pobj_heading_angle) 0,
      obj_heading_angle_var = orElse (chain object pobj_heading_angle_var) 0,
      obj_pitch = orElse (chain object pobj_pitch) 0,
      obj_pitch_var = orElse (chain object pobj_pitch_var) 0,
      obj_dimensions = normalizeVector3 (chain object pobj_dimensions),
      obj_dimensions_var = normalizeVector3 (chain object pobj_dimensions_var),
      obj_clustered_dimensions = normalizeVector3 (chain object pobj_clustered_dimensions),
      obj_velocity = normalizeTwist (chain object pobj_velocity),
      obj_velocity_var = normalizeTwist (chain object pobj_velocity_var),
      obj_abs_velocity = orElse (chain object pobj_abs_velocity) 0,
      obj_abs_velocity_var = orElse (chain object pobj_abs_velocity_var) 0,
      obj_rel_velocity = normalizeTwist (chain object pobj_rel_velocity),
      obj_rel_velocity_var = normalizeTwist (chain object pobj_rel_velocity_var),
      obj_rel_abs_velocity = orElse (chain object pobj_rel_abs_velocity) 0,
      obj_rel_abs_velocity_var = orElse (chain object pobj_rel_abs_velocity_var) 0,
      obj_acceleration = normalizeTwist (chain object pobj_acceleration),
      obj_acceleration_var = normalizeTwist (chain object pobj_acceleration_var),
      obj_abs_acceleration = orElse (chain object pobj_abs_acceleration) 0,
      obj_abs_acceleration_var = orElse (chain object pobj_abs_acceleration_var) 0,
      obj_rel_acceleration = normalizeTwist (chain object pobj_rel_acceleration),
      obj_rel_acceleration_var = normalizeTwist (chain object pobj_rel_acceleration_var),
      obj_rel_abs_acceleration = orElse (chain object pobj_rel_abs_acceleration) 0,
      obj_rel_abs_acceleration_var = orElse (chain object pobj_rel_abs_acceleration_var) 0,
      obj_lane_relation = orElse (chain object pobj_lane_relation) 0,
      obj_visibility = orElse (chain object pobj_visibility) 0,
      obj_solid_angle = orElse (chain object pobj_solid_angle) 0,
      obj_reflectivity = orElse (chain object pobj_reflectivity) 0,
      obj_occlusion = orElse (chain object pobj_occlusion) '''',
      obj_occlusion_l = orElse (chain object pobj_occlusion_l) '''',
      obj_occlusion_h = orElse (chain object pobj_occlusion_h) '''',
      obj_occlusion_w = orElse (chain object pobj_occlusion_w) '''',
      obj_occlusion_lowerpart = orElse (chain object pobj_occlusion_lowerpart) False,
      obj_validity = orElse (chain object pobj_validity) False,
      obj_has_sun = orElse (chain object pobj_has_sun) False,
      obj_relation_type = orElse (chain object pobj_relation_type) 0,
      obj_relation_id = orElse (chain object pobj_relation_id) 0,
      obj_has_child = orElse (chain object pobj_has_child) False,
      obj_class_label_true = orElse (chain object pobj_class_label_true) '''',
      obj_class_label_pred = orElse (chain object pobj_class_label_pred) '''',
      obj_target_added = orElse (chain object pobj_target_added) False,
      obj_target_deleted = orElse (chain object pobj_target_deleted) False,
      obj_subclass_label_true = orElse (chain object pobj_subclass_label_true) '''',
      obj_subclass_label_pred = orElse (chain object pobj_subclass_label_pred) '''',
      obj_behavior_state = orElse (chain object pobj_behavior_state) 0\<rparr>"














section \<open>LDObjectListRenderable\<close>

text \<open>\<^verbatim>\<open>toNanoSec\<close> of \<^verbatim>\<open>@foxglove/rostime\<close>: seconds and nanoseconds as one number.\<close>

definition toNanoSec :: "Time \<Rightarrow> int" where
  "toNanoSec t = sec t * 1000000000 + nsec t"

record LayerSettingsLDObjectList =
  ld_visible :: bool
  ld_frameId :: "string option"
  bboxColor :: string

text \<open>
  The matrix that \<^verbatim>\<open>tempMat4.compose(position, quaternion, scale)\<close> builds is determined
  by its three arguments, which stand for it. A label is an object of the label pool;
  of its state the model keeps what the renderable sets, \<open>None\<close> for what it has not
  set.
\<close>

record Transform =
  t_position :: Vector3
  t_quaternion :: Quaternion
  t_scale :: Vector3

record Label =
  label_ref :: ref
  label_text :: "string option"
  label_position :: "Vector3 option"
  label_billboard :: "bool option"
  label_sizeAttenuation :: "bool option"
  label_lineHeight :: "int option"
  label_color :: "string option"
  label_backgroundColor :: "(int \<times> int \<times> int) option"

text \<open>
  What the renderable shares with the rest of the renderer: the heap, the label pool
  (\<^verbatim>\<open>LabelPool\<close> of \<^verbatim>\<open>@foxglove/three-text\<close>: \<^verbatim>\<open>acquire\<close> hands out a released label
  if there is one and a new label otherwise, \<^verbatim>\<open>release\<close> takes a label back; the log
  \<open>pool_released\<close> records the calls of \<^verbatim>\<open>release\<close>), and the colour of
  \<^verbatim>\<open>instancedOutlineMaterial\<close>.
\<close>

record Renderer =
  r_heap :: heap
  pool_available :: "Label list"
  pool_released :: "ref list"
  outline_color :: "string option"

definition acquire :: "Renderer \<Rightarrow> Label \<times> Renderer" where
  "acquire rd =
     (if pool_available rd = []
      then (let (r, h1) = fresh (r_heap rd)
            in (\<lparr>label_ref = r, label_text = None, label_position = None, label_billboard = None,
                 label_sizeAttenuation = None, label_lineHeight = None, label_color = None,
                 label_backgroundColor = None\<rparr>, rd\<lparr>r_heap := h1\<rparr>))
      else (last (pool_available rd), rd\<lparr>pool_available := butlast (pool_available rd)\<rparr>))"

definition release :: "Label \<Rightarrow> Renderer \<Rightarrow> Renderer" where
  "release l rd =
     rd\<lparr>pool_available := pool_available rd @ [l], pool_released := pool_released rd @ [label_ref l]\<rparr>"

record LDObjectListRenderable =
  ld_geometry :: ref
  ld_material :: ref
  ld_mesh :: ref
  mesh_count :: nat
  instanceMatrix :: "Transform option list"
  maxInstances :: nat
  outlineGeometry :: ref
  outline_instanceCount :: nat
  outline :: ref
  outline_geometry :: ref
  labels :: "Label list"
  ld_children :: "ref list"
  ud_topic :: string
  ud_receiveTime :: int
  ud_messageTime :: int
  ud_frameId :: string
  ud_objectList :: LDObjectList
  ud_originalMessage :: "PartialLDObjectList option"
  ud_settings :: LayerSettingsLDObjectList

text \<open>
  The constructor. The instance matrix of an \<^verbatim>\<open>InstancedMesh\<close> of capacity
  \<open>maxInstances\<close> is a buffer with that many slots, none written yet.
\<close>

definition new_LDObjectListRenderable ::
  "string \<Rightarrow> int \<Rightarrow> LDObjectList \<Rightarrow> PartialLDObjectList option \<Rightarrow> LayerSettingsLDObjectList
     \<Rightarrow> Renderer \<Rightarrow> LDObjectListRenderable \<times> Renderer" where
  "new_LDObjectListRenderable topic receiveTime objectList originalMessage sts rd =
     (let (mat, h1) = fresh (r_heap rd);
          (geo, h2) = fresh h1;
          (mesh, h3) = fresh h2;
          (og, h4) = fresh h3;
          (ol, h5) = fresh h4
      in (\<lparr>ld_geometry = geo, ld_material = mat, ld_mesh = mesh, mesh_count = 0,
           instanceMatrix = replicate 48 None, maxInstances = 48,
           outlineGeometry = og, outline_instanceCount = 0, outline = ol, outline_geometry = og,
           labels = [], ld_children = [ol], ud_topic = topic, ud_receiveTime = receiveTime,
           ud_messageTime = toNanoSec (stamp (list_header objectList)),
           ud_frameId = frame_id (list_header objectList), ud_objectList = objectList,
           ud_originalMessage = originalMessage, ud_settings = sts\<rparr>,
          rd\<lparr>r_heap := h5\<rparr>))"

text \<open>
  \<^verbatim>\<open>setMatrixAt(index, matrix)\<close> writes the matrix into the buffer at the index; a write
  past the end of a typed array is dropped.
\<close>

definition setMatrixAt :: "nat \<Rightarrow> Transform \<Rightarrow> Transform option list \<Rightarrow> Transform option list" where
  "setMatrixAt i m buf = (if i < length buf then buf[i := Some m] else buf)"

text \<open>\<^verbatim>\<open>Number.prototype.toString\<close> on an integer.\<close>

fun digits :: "nat \<Rightarrow> string" where
  "digits n = (if n < 10 then [char_of (48 + n)] else digits (n div 10) @ [char_of (48 + n mod 10)])"

definition number_toString :: "int \<Rightarrow> string" where
  "number_toString n = (if n < 0 then CHR ''-'' # digits (nat (- n)) else digits (nat n))"

text \<open>What the loop does to \<^verbatim>\<open>this.labels[i]\<close>.\<close>

definition set_label :: "LayerSettingsLDObjectList \<Rightarrow> LDObject \<Rightarrow> Label \<Rightarrow> Label" where
  "set_label sts obj l =
     l\<lparr>label_text := Some (number_toString (obj_id obj) @ [CHR 0x0A] @ obj_class_label_pred obj),
       label_position := Some \<lparr>x3 = x3 (obj_tracking_points obj) - 1,
                               y3 = y3 (obj_tracking_points obj),
                               z3 = z3 (obj_tracking_points obj)\<rparr>,
       label_billboard := Some True,
       label_sizeAttenuation := Some False,
       label_lineHeight := Some 8,
       label_color := Some (bboxColor sts),
       label_backgroundColor := Some (0, 0, 0)\<rparr>"

text \<open>The matrix composed for an object: its position, its orientation, its dimensions.\<close>

definition compose_of :: "LDObject \<Rightarrow> Transform" where
  "compose_of obj =
     \<lparr>t_position = position (obj_pose obj), t_quaternion = orientation (obj_pose obj),
      t_scale = obj_dimensions obj\<rparr>"

text \<open>One round of the loop over \<^verbatim>\<open>objectList.objects\<close>, for the object at index \<open>i\<close>.\<close>

definition ld_body ::
  "LayerSettingsLDObjectList \<Rightarrow> LDObject \<Rightarrow> nat \<Rightarrow> LDObjectListRenderable \<times> Renderer
     \<Rightarrow> LDObjectListRenderable \<times> Renderer" where
  "ld_body sts obj i = (\<lambda>(this, rd).
     let m = compose_of obj;
         (newLabel, rd1) = acquire rd;
         ls = labels this @ [newLabel]
     in (this\<lparr>instanceMatrix := setMatrixAt i m (instanceMatrix this),
              labels := (if i < length ls then ls[i := set_label sts obj (ls ! i)] else ls),
              ld_children := group_add (label_ref newLabel) (ld_children this)\<rparr>, rd1))"

fun ld_loop ::
  "LayerSettingsLDObjectList \<Rightarrow> LDObject list \<Rightarrow> nat \<Rightarrow> LDObjectListRenderable \<times> Renderer
     \<Rightarrow> nat \<times> LDObjectListRenderable \<times> Renderer" where
  "ld_loop sts [] i st = (i, st)"
| "ld_loop sts (obj # objs) i st = ld_loop sts objs (Suc i) (ld_body sts obj i st)"

text \<open>\<^verbatim>\<open>updateLDObjectList(objectList, originalMessage, settings, receiveTime)\<close>.\<close>

definition updateLDObjectList ::
  "LDObjectList \<Rightarrow> PartialLDObjectList option \<Rightarrow> LayerSettingsLDObjectList \<Rightarrow> int
     \<Rightarrow> LDObjectListRenderable \<times> Renderer \<Rightarrow> LDObjectListRenderable \<times> Renderer" where
  "updateLDObjectList objectList originalMessage sts receiveTime = (\<lambda>(this0, rd0).
     let rd1 = rd0\<lparr>r_heap := dispose_ref (ld_mesh this0) (dispose_ref (ld_geometry this0) (r_heap rd0))\<rparr>;
         this1 = this0\<lparr>ud_receiveTime := receiveTime,
                      ud_messageTime := toNanoSec (stamp (list_header objectList)),
                      ud_frameId := frame_id (list_header objectList),
                      ud_objectList := objectList,
                      ud_originalMessage := originalMessage,
                      ud_settings := sts\<rparr>;
         (i, this2, rd2) = ld_loop sts (list_objects objectList) 0 (this1, rd1);
         (og, h3) = fresh (dispose_ref (outlineGeometry this2) (r_heap rd2));
         this3 = this2\<lparr>mesh_count := i, outlineGeometry := og, outline_instanceCount := i,
                      outline_geometry := og\<rparr>;
         rd3 = rd2\<lparr>r_heap := h3, outline_color := Some (bboxColor sts)\<rparr>
     in if i < length (labels this3)
        then (this3\<lparr>labels := take i (labels this3)\<rparr>, fold release (drop i (labels this3)) rd3)
        else (this3, rd3))"

text \<open>A renderer in which nothing has been created yet.\<close>

definition new_Renderer :: Renderer where
  "new_Renderer =
     \<lparr>r_heap = \<lparr>next_ref = 0, disposed = []\<rparr>, pool_available = [], pool_released = [],
      outline_color = None\<rparr>"

text \<open>A message with the given time stamp and objects, in the frame \<^verbatim>\<open>"base"\<close>.\<close>

definition message_at :: "int \<Rightarrow> LDObject list \<Rightarrow> LDObjectList" where
  "message_at t objs =
     \<lparr>list_header = \<lparr>frame_id = ''base'', stamp = \<lparr>sec = t, nsec = 0\<rparr>\<rparr>,
      list_frame_number = 0, list_objects = objs\<rparr>"

definition default_settings_LD :: LayerSettingsLDObjectList where
  "default_settings_LD = \<lparr>ld_visible = False, ld_frameId = None, bboxColor = ''#7c6bff''\<rparr>"

text \<open>
  A renderable made for a topic and updated with a message of one object, then with a
  message that differs from it in the time stamp only, received later.
\<close>

definition ld_created :: "LDObjectListRenderable \<times> Renderer" where
  "ld_created =
     new_LDObjectListRenderable ''/objects'' 5 (message_at 1 [normalizeLDObject None]) None
       default_settings_LD new_Renderer"

definition ld_first :: "LDObjectListRenderable \<times> Renderer" where
  "ld_first =
     updateLDObjectList (message_at 1 [normalizeLDObject None]) None default_settings_LD 5 ld_created"

definition ld_again :: "LDObjectListRenderable \<times> Renderer" where
  "ld_again =
     updateLDObjectList (message_at 2 [normalizeLDObject None]) None default_settings_LD 6 ld_first"

text \<open>
  A circle list made for the sizes 30, 100, 20, then updated with a marker of the same
  sizes in a new scale object and with another time stamp.
\<close>

definition circles_created :: "(RenderableCircleList \<times> heap) option" where
  "circles_created =
     new_RenderableCircleList
       \<lparr>marker_stamp = 1, marker_scale = \<lparr>vec_ref = 0, vec_x = 30, vec_y = 100, vec_z = 20\<rparr>\<rparr>
       \<lparr>next_ref = 1, disposed = []\<rparr>"

definition circles_again :: "(RenderableCircleList \<times> heap) option" where
  "circles_again =
     (case circles_created of
        None \<Rightarrow> None
      | Some (cl, h) \<Rightarrow>
          rcl_update
            \<lparr>marker_stamp = 2,
             marker_scale = \<lparr>vec_ref = next_ref h, vec_x = 30, vec_y = 100, vec_z = 20\<rparr>\<rparr>
            (cl, h\<lparr>next_ref := Suc (next_ref h)\<rparr>))"

definition geometry_refs :: "(RenderableCircleList \<times> heap) option \<Rightarrow> ref list" where
  "geometry_refs st = (case st of None \<Rightarrow> [] | Some (cl, h) \<Rightarrow> map geom_ref (geometries cl))"

text \<open>A renderable updated with a message of 49 objects, one more than its capacity.\<close>

definition ld_overflow :: "LDObjectListRenderable \<times> Renderer" where
  "ld_overflow =
     updateLDObjectList (message_at 1 (replicate 49 (normalizeLDObject None))) None
       default_settings_LD 5 ld_created"

text \<open>A renderable updated with a message of three objects, then with one of one object.\<close>

definition ld_three :: "LDObjectListRenderable \<times> Renderer" where
  "ld_three =
     updateLDObjectList (message_at 1 (replicate 3 (normalizeLDObject None))) None
       default_settings_LD 5 ld_created"

definition ld_three_one :: "LDObjectListRenderable \<times> Renderer" where
  "ld_three_one =
     updateLDObjectList (message_at 2 [normalizeLDObject None]) None default_settings_LD 6 ld_three"

section \<open>DrawCuboidTool\<close>

text \<open>
  The three states \<^verbatim>\<open>"idle"\<close>, \<^verbatim>\<open>"place-first-point"\<close> and \<^verbatim>\<open>"place-second-point"\<close>; the
  two events of the input source that the tool listens to, \<^verbatim>\<open>"click"\<close> and
  \<^verbatim>\<open>"mousemove"\<close>; its two handlers \<^verbatim>\<open>_handleClick\<close> and \<^verbatim>\<open>_handleMouseMove\<close>; and the two
  events that it dispatches, \<^verbatim>\<open>"foxglove.cuboid-start"\<close> and \<^verbatim>\<open>"foxglove.cuboid-end"\<close>.
\<close>

datatype DrawCuboidState = Idle | PlaceFirstPoint | PlaceSecondPoint

datatype InputEvent = Click | MouseMove

datatype Handler = HandleClick | HandleMouseMove

datatype DrawingEvent = CuboidStart | CuboidEnd

text \<open>
  Of a \<^verbatim>\<open>THREE.Mesh\<close> the tool sets the visibility and the position. The meshes are
  objects: \<^verbatim>\<open>startDrawing\<close> replaces the four circles by new meshes while the scene
  keeps the old ones, so the tool holds references into a store of meshes. A new mesh
  of three.js is visible and at the origin.
\<close>

record Mesh =
  mesh_visible :: bool
  mesh_position :: Vector3

definition new_Mesh :: Mesh where
  "new_Mesh = \<lparr>mesh_visible = True, mesh_position = \<lparr>x3 = 0, y3 = 0, z3 = 0\<rparr>\<rparr>"

text \<open>
  The tool, with what it reaches through \<^verbatim>\<open>this.renderer\<close>: the listeners registered
  with \<^verbatim>\<open>renderer.input\<close>, in registration order, and the number of calls of
  \<^verbatim>\<open>queueAnimationFrame\<close>. \<open>cuboid_position\<close> and \<open>cuboidOccluded_position\<close> are the
  \<^verbatim>\<open>position\<close> attributes of the two cuboid geometries.
\<close>

record DrawCuboidTool =
  meshes :: "ref \<Rightarrow> Mesh"
  next_mesh :: ref
  circle1 :: ref
  circle2 :: ref
  circle3 :: ref
  circle4 :: ref
  cuboid :: ref
  cuboidOccluded :: ref
  cuboidPositionAttribute :: "int list"
  attribute_needsUpdate :: bool
  cuboid_position :: "int list"
  cuboidOccluded_position :: "int list"
  point1NeedsUpdate :: bool
  point2NeedsUpdate :: bool
  point1 :: "Vector3 option"
  point2 :: "Vector3 option"
  state :: DrawCuboidState
  tool_children :: "ref list"
  listeners :: "(InputEvent \<times> Handler) list"
  dispatched :: "DrawingEvent list"
  animation_frames :: nat

text \<open>
  Modelled from the spec: the input source \<^verbatim>\<open>renderer.input\<close> is not among the sources.
  The specification describes it as a subscription list from event kinds to handlers,
  invoked in registration order, at which a listener is registered and unregistered.
  \<open>addListener\<close> appends a registration; \<open>removeListener\<close> removes the registrations of
  the handler for the event.
\<close>

definition addListener :: "InputEvent \<Rightarrow> Handler \<Rightarrow> DrawCuboidTool \<Rightarrow> DrawCuboidTool" where
  "addListener e h t = t\<lparr>listeners := listeners t @ [(e, h)]\<rparr>"

definition removeListener :: "InputEvent \<Rightarrow> Handler \<Rightarrow> DrawCuboidTool \<Rightarrow> DrawCuboidTool" where
  "removeListener e h t = t\<lparr>listeners := filter (\<lambda>l. l \<noteq> (e, h)) (listeners t)\<rparr>"

definition dispatchEvent :: "DrawingEvent \<Rightarrow> DrawCuboidTool \<Rightarrow> DrawCuboidTool" where
  "dispatchEvent e t = t\<lparr>dispatched := dispatched t @ [e]\<rparr>"

text \<open>\<^verbatim>\<open>_createBox(poi1, poi2)\<close>: the 36 corners of the 12 triangles, flattened.\<close>

definition createBox :: "Vector3 \<Rightarrow> Vector3 \<Rightarrow> int list" where
  "createBox poi1 poi2 =
     (let p0 = poi1;
          p1 = \<lparr>x3 = x3 poi1, y3 = y3 poi2, z3 = z3 poi2\<rparr>;
          p2 = \<lparr>x3 = x3 poi1, y3 = y3 poi2, z3 = z3 poi2 + 1\<rparr>;
          p3 = \<lparr>x3 = x3 poi1, y3 = y3 poi1, z3 = z3 poi1 + 1\<rparr>;
          p4 = \<lparr>x3 = x3 poi2, y3 = y3 poi1, z3 = z3 poi1\<rparr>;
          p5 = poi2;
          p6 = \<lparr>x3 = x3 poi2, y3 = y3 poi2, z3 = z3 poi2 + 1\<rparr>;
          p7 = \<lparr>x3 = x3 poi2, y3 = y3 poi1, z3 = z3 poi1 + 1\<rparr>;
          p = [p0, p1, p3, p1, p2, p3,
               p4, p5, p7, p5, p6, p7,
               p0, p1, p4, p1, p5, p4,
               p3, p2, p7, p2, p6, p7,
               p0, p3, p4, p3, p7, p4,
               p1, p2, p5, p2, p6, p5]
      in concat (map (\<lambda>unit. [x3 unit, y3 unit, z3 unit]) p))"

text \<open>
  \<^verbatim>\<open>_render()\<close>. The branch for a missing point of the cuboid holds only two
  statements that are commented out, so it does nothing.
\<close>

definition render_circle :: "ref \<Rightarrow> Vector3 option \<Rightarrow> (ref \<Rightarrow> Mesh) \<Rightarrow> (ref \<Rightarrow> Mesh)" where
  "render_circle c pt ms =
     (case pt of
        Some p \<Rightarrow> ms(c := \<lparr>mesh_visible = True, mesh_position = p\<rparr>)
      | None \<Rightarrow> ms(c := (ms c)\<lparr>mesh_visible := False\<rparr>))"

definition render :: "DrawCuboidTool \<Rightarrow> DrawCuboidTool" where
  "render t0 =
     (let t1 = t0\<lparr>meshes := render_circle (circle1 t0) (point1 t0) (meshes t0),
                  point1NeedsUpdate := (if point1 t0 = None then point1NeedsUpdate t0 else False)\<rparr>;
          t2 = t1\<lparr>meshes := render_circle (circle2 t1) (point2 t1) (meshes t1),
                  point2NeedsUpdate := (if point2 t1 = None then point2NeedsUpdate t1 else False)\<rparr>;
          t3 = (case (point1 t2, point2 t2) of
                  (Some p1, Some p2) \<Rightarrow>
                    (let attr = createBox p1 p2;
                         ms = meshes t2;
                         ms1 = ms(cuboid t2 := (ms (cuboid t2))\<lparr>mesh_visible := True\<rparr>);
                         ms2 = ms1(cuboidOccluded t2 := (ms1 (cuboidOccluded t2))\<lparr>mesh_visible := True\<rparr>)
                     in t2\<lparr>cuboidPositionAttribute := attr, cuboid_position := attr,
                           cuboidOccluded_position := attr, attribute_needsUpdate := True,
                           meshes := ms2\<rparr>)
                | _ \<Rightarrow> t2)
      in t3\<lparr>animation_frames := Suc (animation_frames t3)\<rparr>)"

text \<open>\<^verbatim>\<open>_setState(state)\<close>.\<close>

definition setState :: "DrawCuboidState \<Rightarrow> DrawCuboidTool \<Rightarrow> DrawCuboidTool" where
  "setState st t0 =
     (let t = t0\<lparr>state := st\<rparr>
      in render
           (case st of
              Idle \<Rightarrow>
                dispatchEvent CuboidEnd
                  (removeListener MouseMove HandleMouseMove (removeListener Click HandleClick t))
            | PlaceFirstPoint \<Rightarrow>
                dispatchEvent CuboidStart
                  (addListener MouseMove HandleMouseMove
                    (addListener Click HandleClick (t\<lparr>point1 := None, point2 := None\<rparr>)))
            | PlaceSecondPoint \<Rightarrow> t))"

text \<open>
  \<^verbatim>\<open>startDrawing()\<close>: after the state change the four circle fields get new meshes,
  which are not added to the scene.
\<close>

definition startDrawing :: "DrawCuboidTool \<Rightarrow> DrawCuboidTool" where
  "startDrawing t0 =
     (let t = setState PlaceFirstPoint t0;
          n = next_mesh t
      in t\<lparr>circle1 := n, circle2 := n + 1, circle3 := n + 2, circle4 := n + 3,
           next_mesh := n + 4,
           meshes := (meshes t)(n := new_Mesh, n + 1 := new_Mesh, n + 2 := new_Mesh, n + 3 := new_Mesh)\<rparr>)"

text \<open>\<^verbatim>\<open>stopDrawing()\<close>.\<close>

definition stopDrawing :: "DrawCuboidTool \<Rightarrow> DrawCuboidTool" where
  "stopDrawing t0 = (setState Idle t0)\<lparr>point1 := None, point2 := None\<rparr>"

text \<open>
  \<^verbatim>\<open>_handleMouseMove\<close> and \<^verbatim>\<open>_handleClick\<close>; the world-space coordinate is absent when
  the pointer is off any pickable surface.
\<close>

definition handleMouseMove :: "Vector3 option \<Rightarrow> DrawCuboidTool \<Rightarrow> DrawCuboidTool" where
  "handleMouseMove worldSpaceCursorCoords t =
     (case worldSpaceCursorCoords of
        None \<Rightarrow> t
      | Some w \<Rightarrow>
          render (case state t of
                    Idle \<Rightarrow> t
                  | PlaceFirstPoint \<Rightarrow> t\<lparr>point1 := Some w, point1NeedsUpdate := True\<rparr>
                  | PlaceSecondPoint \<Rightarrow> t\<lparr>point2 := Some w, point2NeedsUpdate := True\<rparr>))"

definition handleClick :: "Vector3 option \<Rightarrow> DrawCuboidTool \<Rightarrow> DrawCuboidTool" where
  "handleClick worldSpaceCursorCoords t =
     (case worldSpaceCursorCoords of
        None \<Rightarrow> t
      | Some w \<Rightarrow>
          render (case state t of
                    Idle \<Rightarrow> t
                  | PlaceFirstPoint \<Rightarrow>
                      setState PlaceSecondPoint (t\<lparr>point1 := Some w, point1NeedsUpdate := True\<rparr>)
                  | PlaceSecondPoint \<Rightarrow>
                      setState Idle (t\<lparr>point2 := Some w, point2NeedsUpdate := True\<rparr>)))"

text \<open>
  The constructor: six meshes, the four circles hidden, all six added to the scene,
  then \<^verbatim>\<open>_setState("idle")\<close>.
\<close>

definition new_DrawCuboidTool :: DrawCuboidTool where
  "new_DrawCuboidTool =
     setState Idle
       \<lparr>meshes = (\<lambda>r. new_Mesh)
           (0 := new_Mesh\<lparr>mesh_visible := False\<rparr>, 1 := new_Mesh\<lparr>mesh_visible := False\<rparr>,
            2 := new_Mesh\<lparr>mesh_visible := False\<rparr>, 3 := new_Mesh\<lparr>mesh_visible := False\<rparr>),
        next_mesh = 6,
        circle1 = 0, circle2 = 1, circle3 = 2, circle4 = 3, cuboid = 4, cuboidOccluded = 5,
        cuboidPositionAttribute = [], attribute_needsUpdate = False,
        cuboid_position = [], cuboidOccluded_position = [],
        point1NeedsUpdate = False, point2NeedsUpdate = False,
        point1 = None, point2 = None, state = Idle,
        tool_children = [0, 1, 2, 3, 4, 5], listeners = [], dispatched = [],
        animation_frames = 0\<rparr>"

text \<open>Whether a handler is registered for an event, and a point to click at.\<close>

definition registered :: "InputEvent \<Rightarrow> Handler \<Rightarrow> DrawCuboidTool \<Rightarrow> bool" where
  "registered e h t \<longleftrightarrow> (e, h) \<in> set (listeners t)"

definition point_at :: "int \<Rightarrow> int \<Rightarrow> int \<Rightarrow> Vector3" where
  "point_at a b c = \<lparr>x3 = a, y3 = b, z3 = c\<rparr>"

text \<open>
  The tool after \<^verbatim>\<open>startDrawing()\<close> and a click at (1, 2, 3); after the second click at
  (4, 5, 6), which completes the cuboid; and after \<^verbatim>\<open>startDrawing()\<close> is called again.
\<close>

definition tool_first_placed :: DrawCuboidTool where
  "tool_first_placed = handleClick (Some (point_at 1 2 3)) (startDrawing new_DrawCuboidTool)"

definition tool_completed :: DrawCuboidTool where
  "tool_completed = handleClick (Some (point_at 4 5 6)) tool_first_placed"

definition tool_restarted :: DrawCuboidTool where
  "tool_restarted = startDrawing tool_completed"

section \<open>Auxiliary notions for the statements\<close>


text \<open>The empty object, and the configuration entry of a circle grid with three sizes.\<close>

definition no_settings :: PartialLayerSettings where
  "no_settings =
     \<lparr>cfg_visible = None, cfg_frameLocked = None, cfg_label = None, cfg_instanceId = None,
      cfg_layerId = None, cfg_frameId = None, cfg_minSize = None, cfg_maxSize = None,
      cfg_step = None, cfg_order = None\<rparr>"

definition grid_settings :: "int \<Rightarrow> int \<Rightarrow> int \<Rightarrow> PartialLayerSettings" where
  "grid_settings mn mx st =
     no_settings\<lparr>cfg_layerId := Some LAYER_ID, cfg_minSize := Some mn,
                 cfg_maxSize := Some mx, cfg_step := Some st\<rparr>"

text \<open>
  The keys of the registry, and the instance ids that the configuration holds with the
  \<^verbatim>\<open>layerId\<close> of a circle grid.
\<close>

definition registry_keys :: "CircleGrids \<Rightarrow> string set" where
  "registry_keys this = fst ` set (renderables this)"

definition is_grid_entry :: "string \<times> PartialLayerSettings \<Rightarrow> bool" where
  "is_grid_entry e = (cfg_layerId (snd e) = Some LAYER_ID)"

definition grid_ids :: "CircleGrids \<Rightarrow> string set" where
  "grid_ids this = fst ` set (filter is_grid_entry (config_layers this))"




text \<open>
  The settings tree offers the step between \<open>MIN_STEP\<close> and \<open>MAX_STEP\<close>. A configuration
  has positive steps when every circle grid in it has one after the defaults are filled
  in, and an action keeps them positive when it does not write a step that is zero or
  negative.
\<close>

definition positive_steps :: "CircleGrids \<Rightarrow> bool" where
  "positive_steps this \<longleftrightarrow>
     list_all (\<lambda>e. is_grid_entry e \<longrightarrow> 0 < step (spread DEFAULT_SETTINGS (snd e)))
       (config_layers this)"


section \<open>The range of radii\<close>









section \<open>The circle grid scenario\<close>

lemmas circle_grid_eval =
  new_CircleGrids_def grid_settings_def no_settings_def updateGrid_def createRenderable_def
  createMarker_def new_RenderableCircleList_def setCircles_def rangeJS_def range_loop.simps
  add_circle_def fresh_def group_add_def spread_def DEFAULT_SETTINGS_def orElse_def LAYER_ID_def
  MIN_SIZE_def DEFAULT_SIZE_def DEFAULT_STEP_def rcl_update_def RenderableMarker_update_def
  dispose_geometries_def dispose_ref_def rcl_dispose_def saveSetting_def set_field_def Let_def

text \<open>
  C3. A circle-grid layer configured with \<^verbatim>\<open>{minSize: 30, maxSize: 100, step: 20}\<close> is
  constructed with exactly the four circle geometries of radii 30, 50, 70, 90. The
  edit of \<^verbatim>\<open>step\<close> to 10 returns and leaves exactly the seven geometries of radii 30, 40,
  ..., 90, all of them new, and \<^verbatim>\<open>dispose\<close> has been invoked on each of the four original
  geometries, once, and on nothing else.
\<close>

theorem circle_grid_scenario:
  "\<exists>s1 r1 s2 r2.
     new_CircleGrids [(iid, grid_settings 30 100 20)] = Some s1
   \<and> map_of (renderables s1) iid = Some r1
   \<and> map geom_radius (geometries (circleList r1)) = [30, 50, 70, 90]
   \<and> disposed (gpu s1) = []
   \<and> handleSettingsAction (Update [''layers'', iid, ''step''] (JNum 10)) s1 = Some s2
   \<and> map_of (renderables s2) iid = Some r2
   \<and> map geom_radius (geometries (circleList r2)) = [30, 40, 50, 60, 70, 80, 90]
   \<and> disposed (gpu s2) = map geom_ref (geometries (circleList r1))
   \<and> distinct (map geom_ref (geometries (circleList r1)))
   \<and> set (map geom_ref (geometries (circleList r1)))
       \<inter> set (map geom_ref (geometries (circleList r2))) = {}"
  by (simp add: circle_grid_eval)

section \<open>The registry of circle grids\<close>







lemma registry_keys_update:
  "renderables s' = AList.update k r (renderables s) \<Longrightarrow> registry_keys s' = insert k (registry_keys s)"
  by (simp add: registry_keys_def dom_update)

lemma registry_keys_absent:
  "map_of (renderables s) k = None \<longleftrightarrow> k \<notin> registry_keys s"
  by (simp add: registry_keys_def map_of_eq_None_iff)


lemma createRenderable_result:
  "createRenderable k st s = Some (r, s1) \<Longrightarrow>
   renderables s1 = AList.update k r (renderables s) \<and> config_layers s1 = config_layers s"
  by (auto simp: createRenderable_def Let_def split: prod.splits option.splits)

lemma updateGrid_Some:
  assumes "updateGrid k (Some p) s = Some s'"
  shows "registry_keys s' = insert k (registry_keys s) \<and> config_layers s' = config_layers s"
proof -
  obtain r s1 where g: "(case map_of (renderables s) k of
                      None \<Rightarrow> createRenderable k (spread DEFAULT_SETTINGS p) s
                    | Some r \<Rightarrow> Some (r, s)) = Some (r, s1)"
    using assms by (auto simp: updateGrid_def Let_def split: option.splits)
  have k1: "registry_keys s1 = insert k (registry_keys s) \<and> config_layers s1 = config_layers s"
  proof (cases "map_of (renderables s) k")
    case None
    with g have "createRenderable k (spread DEFAULT_SETTINGS p) s = Some (r, s1)" by simp
    from createRenderable_result [OF this] show ?thesis by (simp add: registry_keys_update)
  next
    case (Some r')
    then have "k \<in> registry_keys s" using registry_keys_absent [of s k] by auto
    with g Some show ?thesis by auto
  qed
  have "\<exists>r'. renderables s' = AList.update k r' (renderables s1) \<and> config_layers s' = config_layers s1"
    using assms g by (auto simp: updateGrid_def Let_def split: option.splits if_splits prod.splits)
  then obtain r' where "renderables s' = AList.update k r' (renderables s1)" "config_layers s' = config_layers s1"
    by blast
  with k1 show ?thesis by (simp add: registry_keys_update)
qed









lemma settingsNodes_loop_result:
  "settingsNodes_loop L es s = Some (es', s') \<Longrightarrow>
     config_layers s' = config_layers s
   \<and> registry_keys s' = registry_keys s \<union> fst ` set (filter is_grid_entry L)
   \<and> entry_path ` set es' =
       entry_path ` set es \<union> (\<lambda>k. [''layers'', k]) ` fst ` set (filter is_grid_entry L)"
proof (induction L arbitrary: es s)
  case Nil
  then show ?case by simp
next
  case (Cons e L)
  obtain k c where e: "e = (k, c)" by (cases e)
  show ?case
  proof (cases "cfg_layerId c = Some LAYER_ID")
    case False
    then have "settingsNodes_loop L es s = Some (es', s')" using Cons.prems e by simp
    from Cons.IH [OF this] False e show ?thesis by (simp add: is_grid_entry_def)
  next
    case True
    define entry where "entry = \<lparr>entry_path = [''layers'', k],
                     entry_label = orElse (cfg_label c) ''Grid'',
                     entry_visible = orElse (cfg_visible c) (visible DEFAULT_SETTINGS),
                     entry_order = cfg_order c,
                     entry_fields = [(''minSize'', cfg_minSize c),
                                     (''maxSize'', cfg_maxSize c),
                                     (''step'', cfg_step c)],
                     entry_actions = [''delete'']\<rparr>"
    obtain s1 where u: "(if map_of (renderables s) k = None
                 then updateGrid k (Some c) s else Some s) = Some s1"
      and l: "settingsNodes_loop L (es @ [entry]) s1 = Some (es', s')"
      using Cons.prems e True by (auto simp: Let_def entry_def split: option.splits if_splits)
    have s1: "registry_keys s1 = insert k (registry_keys s) \<and> config_layers s1 = config_layers s"
    proof (cases "map_of (renderables s) k = None")
      case True
      with u have "updateGrid k (Some c) s = Some s1" by simp
      from updateGrid_Some [OF this] show ?thesis .
    next
      case False
      then have "k \<in> registry_keys s" by (simp add: registry_keys_absent)
      with u False show ?thesis by auto
    qed
    from Cons.IH [OF l] s1 True e show ?thesis
      by (auto simp: is_grid_entry_def entry_def)
  qed
qed








lemma positive_steps_same:
  "positive_steps s \<Longrightarrow> config_layers s' = config_layers s \<Longrightarrow> positive_steps s'"
  by (simp add: positive_steps_def)









lemma fold_dispose_ref: "fold dispose_ref xs h = h\<lparr>disposed := disposed h @ xs\<rparr>"
  by (induction xs arbitrary: h) (simp_all add: dispose_ref_def)



text \<open>
  C2. For an instance id held by the registry, the delete action on
  \<^verbatim>\<open>["layers", instanceId]\<close> returns, and in the state it returns the key is absent from
  the configuration, from the registry and from the scene, the disposal that the
  delete branch calls (\<^verbatim>\<open>dispose\<close> of the renderable's circle list: each of its
  geometries, then its material) has been appended to the dispose log exactly once, and
  one more refresh of the settings tree has been requested. The next
  \<^verbatim>\<open>settingsNodes()\<close> neither emits the path nor recreates the renderable. The handler
  is one synchronous step with no failing branch, so its caller sees the state before
  or the state after and nothing in between.
\<close>

theorem delete_is_atomic:
  assumes "map_of (renderables s) iid = Some r"
  shows "\<exists>s'. handleSettingsAction (PerformNodeAction [''layers'', iid] ''delete'') s = Some s'
      \<and> iid \<notin> fst ` set (config_layers s')
      \<and> iid \<notin> registry_keys s'
      \<and> iid \<notin> set (scene_children s')
      \<and> disposed (gpu s') =
          disposed (gpu s) @ map geom_ref (geometries (circleList r)) @ [material (circleList r)]
      \<and> settings_tree_updates s' = Suc (settings_tree_updates s)
      \<and> (\<forall>entries s''. settingsNodes s' = Some (entries, s'') \<longrightarrow>
            [''layers'', iid] \<notin> entry_path ` set entries \<and> iid \<notin> registry_keys s'')"
proof -
  define s' where "s' = s\<lparr>config_layers := AList.delete iid (config_layers s),
      gpu := rcl_dispose (circleList r) (gpu s),
      scene_children := removeAll iid (scene_children s),
      renderables := AList.delete iid (renderables s),
      settings_tree_updates := Suc (settings_tree_updates s),
      layers_count_updates := Suc (layers_count_updates s)\<rparr>"
  have run: "handleSettingsAction (PerformNodeAction [''layers'', iid] ''delete'') s = Some s'"
    using assms by (simp add: updateGrid_def s'_def Let_def)
  have c: "iid \<notin> fst ` set (config_layers s')"
    by (simp add: s'_def delete_notin_dom)
  have k: "iid \<notin> registry_keys s'"
    by (simp add: s'_def registry_keys_def delete_notin_dom)
  have d: "disposed (gpu s') =
      disposed (gpu s) @ map geom_ref (geometries (circleList r)) @ [material (circleList r)]"
    by (simp add: s'_def rcl_dispose_def dispose_geometries_def fold_dispose_ref dispose_ref_def)
  have g: "iid \<notin> grid_ids s'"
    using c by (auto simp: grid_ids_def)
  have n: "[''layers'', iid] \<notin> entry_path ` set entries \<and> iid \<notin> registry_keys s''"
    if "settingsNodes s' = Some (entries, s'')" for entries s''
  proof -
    from settingsNodes_loop_result [OF that [unfolded settingsNodes_def]]
    have "registry_keys s'' = registry_keys s' \<union> grid_ids s'"
      "entry_path ` set entries = (\<lambda>k. [''layers'', k]) ` grid_ids s'"
      by (simp_all add: grid_ids_def)
    with k g show ?thesis by auto
  qed
  from run c k d n show ?thesis by (simp add: s'_def)
qed

theorem delete_is_atomic_witness:
  "\<exists>s r s'. new_CircleGrids [(''a'', grid_settings 30 100 20)] = Some s
      \<and> map_of (renderables s) ''a'' = Some r
      \<and> handleSettingsAction (PerformNodeAction [''layers'', ''a''] ''delete'') s = Some s'
      \<and> ''a'' \<notin> fst ` set (config_layers s')
      \<and> ''a'' \<notin> registry_keys s'
      \<and> disposed (gpu s') =
          disposed (gpu s) @ map geom_ref (geometries (circleList r)) @ [material (circleList r)]
      \<and> settingsNodes s' = Some ([], s')"
proof -
  obtain s r where s: "new_CircleGrids [(''a'', grid_settings 30 100 20)] = Some s"
    and r: "map_of (renderables s) ''a'' = Some r"
    by (simp add: circle_grid_eval)
  from delete_is_atomic [OF r] obtain s' where
    d: "handleSettingsAction (PerformNodeAction [''layers'', ''a''] ''delete'') s = Some s'"
      "''a'' \<notin> fst ` set (config_layers s')" "''a'' \<notin> registry_keys s'"
      "disposed (gpu s') =
          disposed (gpu s) @ map geom_ref (geometries (circleList r)) @ [material (circleList r)]"
    by blast
  have "config_layers s' = []"
    using s d(1) by (auto simp: circle_grid_eval)
  then have "settingsNodes s' = Some ([], s')" by (simp add: settingsNodes_def)
  with s r d show ?thesis by blast
qed

section \<open>Updates of the object-list renderable\<close>

lemma acquire_facts:
  "pool_released (snd (acquire rd)) = pool_released rd"
  "disposed (r_heap (snd (acquire rd))) = disposed (r_heap rd)"
  "next_ref (r_heap rd) \<le> next_ref (r_heap (snd (acquire rd)))"
  "outline_color (snd (acquire rd)) = outline_color rd"
  by (simp_all add: acquire_def fresh_def Let_def)

lemma ld_body_this:
  assumes "ld_body sts obj i (this, rd) = (this', rd')"
  shows "ld_geometry this' = ld_geometry this" "ld_mesh this' = ld_mesh this"
    "ld_material this' = ld_material this" "outlineGeometry this' = outlineGeometry this"
    "outline this' = outline this" "maxInstances this' = maxInstances this"
    "length (labels this') = Suc (length (labels this))"
    "instanceMatrix this' = setMatrixAt i (compose_of obj) (instanceMatrix this)"
  using assms by (auto simp: ld_body_def Let_def split: prod.splits)

lemma ld_body_renderer:
  assumes "ld_body sts obj i (this, rd) = (this', rd')"
  shows "pool_released rd' = pool_released rd" "disposed (r_heap rd') = disposed (r_heap rd)"
    "next_ref (r_heap rd) \<le> next_ref (r_heap rd')"
proof -
  have "rd' = snd (acquire rd)"
    using assms by (auto simp: ld_body_def Let_def split: prod.splits)
  then show "pool_released rd' = pool_released rd" "disposed (r_heap rd') = disposed (r_heap rd)"
    "next_ref (r_heap rd) \<le> next_ref (r_heap rd')"
    by (simp_all add: acquire_facts)
qed

lemma ld_loop_this:
  "ld_loop sts objs i (this, rd) = (n, this', rd') \<Longrightarrow>
     n = i + length objs
   \<and> ld_geometry this' = ld_geometry this \<and> ld_mesh this' = ld_mesh this
   \<and> ld_material this' = ld_material this \<and> outlineGeometry this' = outlineGeometry this
   \<and> outline this' = outline this \<and> maxInstances this' = maxInstances this
   \<and> length (labels this') = length (labels this) + length objs
   \<and> pool_released rd' = pool_released rd \<and> disposed (r_heap rd') = disposed (r_heap rd)
   \<and> next_ref (r_heap rd) \<le> next_ref (r_heap rd')"
proof (induction objs arbitrary: i this rd)
  case Nil
  then show ?case by simp
next
  case (Cons obj objs)
  obtain this1 rd1 where b: "ld_body sts obj i (this, rd) = (this1, rd1)"
    by (cases "ld_body sts obj i (this, rd)")
  with Cons.prems have "ld_loop sts objs (Suc i) (this1, rd1) = (n, this', rd')" by simp
  from Cons.IH [OF this] ld_body_this [OF b] ld_body_renderer [OF b] show ?case by simp
qed

lemma ld_loop_matrix:
  "ld_loop sts objs i (this, rd) = (n, this', rd') \<Longrightarrow>
     length (instanceMatrix this') = length (instanceMatrix this)
   \<and> (\<forall>j < length (instanceMatrix this).
        instanceMatrix this' ! j =
          (if i \<le> j \<and> j < i + length objs then Some (compose_of (objs ! (j - i)))
           else instanceMatrix this ! j))"
proof (induction objs arbitrary: i this rd)
  case Nil
  then show ?case by auto
next
  case (Cons obj objs)
  obtain this1 rd1 where b: "ld_body sts obj i (this, rd) = (this1, rd1)"
    by (cases "ld_body sts obj i (this, rd)")
  with Cons.prems have l: "ld_loop sts objs (Suc i) (this1, rd1) = (n, this', rd')" by simp
  have m: "instanceMatrix this1 = setMatrixAt i (compose_of obj) (instanceMatrix this)"
    by (rule ld_body_this(8) [OF b])
  then have len: "length (instanceMatrix this1) = length (instanceMatrix this)"
    by (simp add: setMatrixAt_def)
  from Cons.IH [OF l] len have ih: "length (instanceMatrix this') = length (instanceMatrix this)"
    "\<forall>j < length (instanceMatrix this).
        instanceMatrix this' ! j =
          (if Suc i \<le> j \<and> j < Suc i + length objs then Some (compose_of (objs ! (j - Suc i)))
           else instanceMatrix this1 ! j)" by simp_all
  show ?case
  proof (intro conjI allI impI)
    show "length (instanceMatrix this') = length (instanceMatrix this)" by (rule ih(1))
  next
    fix j assume j: "j < length (instanceMatrix this)"
    show "instanceMatrix this' ! j =
          (if i \<le> j \<and> j < i + length (obj # objs) then Some (compose_of ((obj # objs) ! (j - i)))
           else instanceMatrix this ! j)"
    proof (cases "Suc i \<le> j \<and> j < Suc i + length objs")
      case True
      then have "(obj # objs) ! (j - i) = objs ! (j - Suc i)"
        by (metis Suc_diff_Suc Suc_le_lessD nth_Cons_Suc)
      with True ih(2) j show ?thesis by simp
    next
      case False
      from ih(2) j have "instanceMatrix this' ! j =
          (if Suc i \<le> j \<and> j < Suc i + length objs then Some (compose_of (objs ! (j - Suc i)))
           else instanceMatrix this1 ! j)" by blast
      then have "instanceMatrix this' ! j = instanceMatrix this1 ! j"
        unfolding if_not_P [OF False] .
      also have "\<dots> = (if j = i then Some (compose_of obj) else instanceMatrix this ! j)"
        using j by (simp add: m setMatrixAt_def)
      finally show ?thesis using False by auto
    qed
  qed
qed

lemma fold_release:
  "pool_released (fold release ls rd) = pool_released rd @ map label_ref ls
   \<and> r_heap (fold release ls rd) = r_heap rd"
  by (induction ls arbitrary: rd) (simp_all add: release_def)

lemma updateLDObjectList_facts:
  assumes "updateLDObjectList ol om sts rt (this, rd) = (this', rd')"
  shows "mesh_count this' = length (list_objects ol)"
    and "outline_instanceCount this' = length (list_objects ol)"
    and "length (labels this') = length (list_objects ol)"
    and "length (pool_released rd') = length (pool_released rd) + length (labels this)"
    and "ld_geometry this' = ld_geometry this" and "ld_mesh this' = ld_mesh this"
    and "maxInstances this' = maxInstances this"
    and "next_ref (r_heap rd) \<le> outlineGeometry this'"
    and "outline_geometry this' = outlineGeometry this'"
    and "length (instanceMatrix this') = length (instanceMatrix this)"
    and "take (length (list_objects ol)) (instanceMatrix this') =
           map (\<lambda>ob. Some (compose_of ob)) (take (length (instanceMatrix this)) (list_objects ol))"
    and "disposed (r_heap rd') =
           disposed (r_heap rd) @ [ld_geometry this, ld_mesh this, outlineGeometry this]"
proof -
  define rd1 where "rd1 = rd\<lparr>r_heap := dispose_ref (ld_mesh this) (dispose_ref (ld_geometry this) (r_heap rd))\<rparr>"
  define this1 where "this1 = this\<lparr>ud_receiveTime := rt,
                      ud_messageTime := toNanoSec (stamp (list_header ol)),
                      ud_frameId := frame_id (list_header ol),
                      ud_objectList := ol,
                      ud_originalMessage := om,
                      ud_settings := sts\<rparr>"
  obtain n this2 rd2 where l: "ld_loop sts (list_objects ol) 0 (this1, rd1) = (n, this2, rd2)"
    by (cases "ld_loop sts (list_objects ol) 0 (this1, rd1)")
  define og where "og = next_ref (r_heap rd2)"
  define this3 where "this3 = this2\<lparr>mesh_count := n, outlineGeometry := og, outline_instanceCount := n,
                      outline_geometry := og\<rparr>"
  define rd3 where "rd3 = rd2\<lparr>r_heap := (dispose_ref (outlineGeometry this2) (r_heap rd2))\<lparr>next_ref := Suc og\<rparr>,
                              outline_color := Some (bboxColor sts)\<rparr>"
  have "updateLDObjectList ol om sts rt (this, rd) = (if n < length (labels this3)
        then (this3\<lparr>labels := take n (labels this3)\<rparr>, fold release (drop n (labels this3)) rd3)
        else (this3, rd3))"
    using l unfolding updateLDObjectList_def rd1_def this1_def this3_def rd3_def og_def
    by (simp add: Let_def fresh_def dispose_ref_def)
  with assms have res: "(this', rd') = (if n < length (labels this3)
        then (this3\<lparr>labels := take n (labels this3)\<rparr>, fold release (drop n (labels this3)) rd3)
        else (this3, rd3))" by simp
  note lt = ld_loop_this [OF l]
  note lm = ld_loop_matrix [OF l]
  have n: "n = length (list_objects ol)" using lt by simp
  have ll: "length (labels this3) = length (labels this) + n"
    using lt by (simp add: this3_def this1_def n)
  have t': "this' = this3\<lparr>labels := take n (labels this3)\<rparr>"
    using res ll by (auto split: if_splits)
  have r': "pool_released rd' = pool_released rd3 @ map label_ref (drop n (labels this3))
      \<and> r_heap rd' = r_heap rd3"
    using res ll fold_release [of "drop n (labels this3)" rd3] by (auto split: if_splits)
  show "mesh_count this' = length (list_objects ol)" by (simp add: t' this3_def n)
  show "outline_instanceCount this' = length (list_objects ol)" by (simp add: t' this3_def n)
  show "length (labels this') = length (list_objects ol)" using ll by (simp add: t' n)
  show "length (pool_released rd') = length (pool_released rd) + length (labels this)"
    using r' lt ll by (simp add: rd3_def rd1_def)
  show "ld_geometry this' = ld_geometry this" using lt by (simp add: t' this3_def this1_def)
  show "ld_mesh this' = ld_mesh this" using lt by (simp add: t' this3_def this1_def)
  show "maxInstances this' = maxInstances this" using lt by (simp add: t' this3_def this1_def)
  show "next_ref (r_heap rd) \<le> outlineGeometry this'"
    using lt by (simp add: t' this3_def og_def rd1_def dispose_ref_def)
  show "outline_geometry this' = outlineGeometry this'" by (simp add: t' this3_def)
  have len: "length (instanceMatrix this') = length (instanceMatrix this)"
    using lm by (simp add: t' this3_def this1_def)
  then show "length (instanceMatrix this') = length (instanceMatrix this)" .
  have nth: "\<forall>j < length (instanceMatrix this).
        instanceMatrix this' ! j =
          (if j < n then Some (compose_of (list_objects ol ! j)) else instanceMatrix this ! j)"
    using lm by (simp add: t' this3_def this1_def n)
  show "take (length (list_objects ol)) (instanceMatrix this') =
           map (\<lambda>ob. Some (compose_of ob)) (take (length (instanceMatrix this)) (list_objects ol))"
    using len nth by (intro nth_equalityI) (auto simp: n)
  show "disposed (r_heap rd') =
           disposed (r_heap rd) @ [ld_geometry this, ld_mesh this, outlineGeometry this]"
    using r' lt by (simp add: rd3_def rd1_def this1_def dispose_ref_def)
qed

section \<open>Normalization\<close>




section \<open>Geometry across updates\<close>

lemma updateGrid_unchanged:
  assumes "map_of (renderables s) iid = Some r"
    and "minSize (spread DEFAULT_SETTINGS p) = minSize (settings r)"
    and "maxSize (spread DEFAULT_SETTINGS p) = maxSize (settings r)"
    and "step (spread DEFAULT_SETTINGS p) = step (settings r)"
  shows "\<exists>s' r'. updateGrid iid (Some p) s = Some s' \<and> map_of (renderables s') iid = Some r'
          \<and> circleList r' = circleList r \<and> gpu s' = gpu s"
  using assms by (simp add: updateGrid_def Let_def update_conv')

lemma rcl_update_same_object:
  "vec_ref (marker_scale m) = vec_ref (marker_scale (rcl_marker cl)) \<Longrightarrow>
   rcl_update m (cl, h) = Some (cl\<lparr>rcl_marker := m\<rparr>, h)"
  by (simp add: rcl_update_def RenderableMarker_update_def Let_def)

text \<open>
  C1, as amended. Where the code guards the rebuild, an update that changes no
  geometry-affecting field allocates and disposes nothing: \<^verbatim>\<open>_updateGrid\<close> with unchanged
  \<^verbatim>\<open>minSize\<close>, \<^verbatim>\<open>maxSize\<close> and \<^verbatim>\<open>step\<close> leaves the circle list and the heap as they
  were, and \<^verbatim>\<open>RenderableCircleList.update\<close> with a marker whose scale is the object it
  already holds keeps its geometries. \<^verbatim>\<open>updateLDObjectList\<close> keeps the handles of its
  box geometry and of its instanced mesh on every update, and on every update, whatever
  the message, replaces its outline geometry by a newly allocated one.
\<close>

theorem no_rebuild_where_guarded:
  "(map_of (renderables s) iid = Some r
      \<and> minSize (spread DEFAULT_SETTINGS p) = minSize (settings r)
      \<and> maxSize (spread DEFAULT_SETTINGS p) = maxSize (settings r)
      \<and> step (spread DEFAULT_SETTINGS p) = step (settings r) \<longrightarrow>
      (\<exists>s' r'. updateGrid iid (Some p) s = Some s' \<and> map_of (renderables s') iid = Some r'
          \<and> circleList r' = circleList r \<and> gpu s' = gpu s))
   \<and> (vec_ref (marker_scale m) = vec_ref (marker_scale (rcl_marker cl)) \<longrightarrow>
        rcl_update m (cl, h) = Some (cl\<lparr>rcl_marker := m\<rparr>, h))
   \<and> ld_geometry (fst (updateLDObjectList ol om sts rt (ld, rd))) = ld_geometry ld
   \<and> ld_mesh (fst (updateLDObjectList ol om sts rt (ld, rd))) = ld_mesh ld
   \<and> next_ref (r_heap rd) \<le> outlineGeometry (fst (updateLDObjectList ol om sts rt (ld, rd)))
   \<and> (outlineGeometry ld < next_ref (r_heap rd) \<longrightarrow>
        outlineGeometry (fst (updateLDObjectList ol om sts rt (ld, rd))) \<noteq> outlineGeometry ld)"
proof -
  obtain ld' rd' where u: "updateLDObjectList ol om sts rt (ld, rd) = (ld', rd')"
    by (cases "updateLDObjectList ol om sts rt (ld, rd)")
  note f = updateLDObjectList_facts [OF u]
  have "next_ref (r_heap rd) \<le> outlineGeometry ld'" by (rule f(8))
  then have "outlineGeometry ld < next_ref (r_heap rd) \<longrightarrow> outlineGeometry ld' \<noteq> outlineGeometry ld"
    by auto
  with f(5,6,8) updateGrid_unchanged [of s iid r p] rcl_update_same_object [of m cl h]
  show ?thesis unfolding u by auto
qed

theorem no_rebuild_where_guarded_witness:
  "\<exists>s r. new_CircleGrids [(''a'', grid_settings 30 100 20)] = Some s
     \<and> map_of (renderables s) ''a'' = Some r
     \<and> minSize (spread DEFAULT_SETTINGS ((grid_settings 30 100 20)\<lparr>cfg_label := Some ''rings''\<rparr>)) = minSize (settings r)
     \<and> maxSize (spread DEFAULT_SETTINGS ((grid_settings 30 100 20)\<lparr>cfg_label := Some ''rings''\<rparr>)) = maxSize (settings r)
     \<and> step (spread DEFAULT_SETTINGS ((grid_settings 30 100 20)\<lparr>cfg_label := Some ''rings''\<rparr>)) = step (settings r)
     \<and> (\<exists>s' r'. updateGrid ''a'' (Some ((grid_settings 30 100 20)\<lparr>cfg_label := Some ''rings''\<rparr>)) s = Some s'
           \<and> map_of (renderables s') ''a'' = Some r' \<and> circleList r' = circleList r \<and> gpu s' = gpu s)
     \<and> vec_ref (marker_scale (rcl_marker (circleList r)\<lparr>marker_stamp := 7\<rparr>))
           = vec_ref (marker_scale (rcl_marker (circleList r)))
     \<and> rcl_update (rcl_marker (circleList r)\<lparr>marker_stamp := 7\<rparr>) (circleList r, gpu s)
           = Some ((circleList r)\<lparr>rcl_marker := rcl_marker (circleList r)\<lparr>marker_stamp := 7\<rparr>\<rparr>, gpu s)
     \<and> outlineGeometry (fst ld_first) < next_ref (r_heap (snd ld_first))
     \<and> outlineGeometry (fst (updateLDObjectList (message_at 2 [normalizeLDObject None]) None
           default_settings_LD 6 (fst ld_first, snd ld_first))) \<noteq> outlineGeometry (fst ld_first)"
proof -
  define p where "p = (grid_settings 30 100 20)\<lparr>cfg_label := Some ''rings''\<rparr>"
  obtain s r where s: "new_CircleGrids [(''a'', grid_settings 30 100 20)] = Some s"
    and r: "map_of (renderables s) ''a'' = Some r"
    and e: "minSize (spread DEFAULT_SETTINGS p) = minSize (settings r)"
      "maxSize (spread DEFAULT_SETTINGS p) = maxSize (settings r)"
      "step (spread DEFAULT_SETTINGS p) = step (settings r)"
    by (simp add: circle_grid_eval p_def)
  define m where "m = rcl_marker (circleList r)\<lparr>marker_stamp := 7\<rparr>"
  have v: "vec_ref (marker_scale m) = vec_ref (marker_scale (rcl_marker (circleList r)))"
    by (simp add: m_def)
  have o: "outlineGeometry (fst ld_first) < next_ref (r_heap (snd ld_first))"
    by (simp add: ld_first_def ld_created_def new_LDObjectListRenderable_def updateLDObjectList_def
        fresh_def dispose_ref_def Let_def new_Renderer_def message_at_def ld_body_def acquire_def
        split: prod.splits)
  note t = no_rebuild_where_guarded [of s "''a''" r p m "circleList r" "gpu s"
      "message_at 2 [normalizeLDObject None]" None default_settings_LD 6 "fst ld_first" "snd ld_first"]
  from t [THEN conjunct1] r e have 1: "\<exists>s' r'. updateGrid ''a'' (Some p) s = Some s'
           \<and> map_of (renderables s') ''a'' = Some r' \<and> circleList r' = circleList r \<and> gpu s' = gpu s"
    by blast
  from t [THEN conjunct2, THEN conjunct1] v
  have 2: "rcl_update m (circleList r, gpu s) = Some ((circleList r)\<lparr>rcl_marker := m\<rparr>, gpu s)"
    by blast
  from t [THEN conjunct2, THEN conjunct2, THEN conjunct2, THEN conjunct2, THEN conjunct2] o
  have 3: "outlineGeometry (fst (updateLDObjectList (message_at 2 [normalizeLDObject None]) None
           default_settings_LD 6 (fst ld_first, snd ld_first))) \<noteq> outlineGeometry (fst ld_first)"
    by blast
  from s r e 1 2 3 o v show ?thesis unfolding p_def m_def by blast
qed

lemmas ld_eval = ld_created_def new_LDObjectListRenderable_def updateLDObjectList_def
  fresh_def dispose_ref_def Let_def new_Renderer_def message_at_def ld_body_def acquire_def
  release_def setMatrixAt_def group_add_def

text \<open>
  C1 as stated fails. The second message has the objects of the first and another time
  stamp, and the renderable holds another outline geometry after it. The circle list
  updated with the same three sizes in a new scale object holds four new geometries.
\<close>

theorem no_rebuild_counterexample:
  "list_objects (ud_objectList (fst ld_again)) = list_objects (ud_objectList (fst ld_first))
   \<and> ud_messageTime (fst ld_again) \<noteq> ud_messageTime (fst ld_first)
   \<and> outlineGeometry (fst ld_again) \<noteq> outlineGeometry (fst ld_first)
   \<and> outline_geometry (fst ld_again) \<noteq> outline_geometry (fst ld_first)
   \<and> geometry_refs circles_created = [2, 4, 6, 8]
   \<and> geometry_refs circles_again = [11, 13, 15, 17]"
proof (intro conjI)
  show "geometry_refs circles_created = [2, 4, 6, 8]"
    by (simp add: geometry_refs_def circles_created_def circle_grid_eval)
  show "geometry_refs circles_again = [11, 13, 15, 17]"
    by (simp add: geometry_refs_def circles_again_def circles_created_def circle_grid_eval)
qed (simp_all add: ld_again_def ld_first_def ld_eval toNanoSec_def)

text \<open>
  C5, as amended. For every message, also one with more objects than the capacity,
  \<^verbatim>\<open>updateLDObjectList\<close> returns (it has no failing branch) and sets the instance count
  of the mesh and of the outline to the number of objects in the message, not clamped;
  it keeps one label per object. The capacity and the instance matrix buffer keep their
  size, and the buffer holds the matrices of the objects that fit: the writes for the
  objects beyond the capacity are dropped.
\<close>

theorem instance_count_follows_message:
  "mesh_count (fst (updateLDObjectList ol om sts rt (ld, rd))) = length (list_objects ol)
   \<and> outline_instanceCount (fst (updateLDObjectList ol om sts rt (ld, rd))) = length (list_objects ol)
   \<and> length (labels (fst (updateLDObjectList ol om sts rt (ld, rd)))) = length (list_objects ol)
   \<and> maxInstances (fst (updateLDObjectList ol om sts rt (ld, rd))) = maxInstances ld
   \<and> length (instanceMatrix (fst (updateLDObjectList ol om sts rt (ld, rd)))) = length (instanceMatrix ld)
   \<and> take (length (list_objects ol)) (instanceMatrix (fst (updateLDObjectList ol om sts rt (ld, rd)))) =
        map (\<lambda>ob. Some (compose_of ob)) (take (length (instanceMatrix ld)) (list_objects ol))"
proof -
  obtain ld' rd' where u: "updateLDObjectList ol om sts rt (ld, rd) = (ld', rd')"
    by (cases "updateLDObjectList ol om sts rt (ld, rd)")
  note f = updateLDObjectList_facts [OF u]
  from f(1,2,3,7,10,11) show ?thesis unfolding u by simp
qed

lemma ld_created_capacity:
  "maxInstances (fst ld_created) = 48 \<and> length (instanceMatrix (fst ld_created)) = 48
   \<and> labels (fst ld_created) = [] \<and> pool_released (snd ld_created) = []"
  by (simp add: ld_eval)

text \<open>
  C5 as stated fails: with 49 objects and a capacity of 48 the instance count is 49.
\<close>

theorem instance_count_counterexample:
  "length (list_objects (message_at 1 (replicate 49 (normalizeLDObject None)))) = 49
   \<and> maxInstances (fst ld_overflow) = 48
   \<and> length (instanceMatrix (fst ld_overflow)) = 48
   \<and> mesh_count (fst ld_overflow) = 49
   \<and> outline_instanceCount (fst ld_overflow) = 49
   \<and> \<not> mesh_count (fst ld_overflow) \<le> maxInstances (fst ld_overflow)"
proof -
  obtain ld rd where c: "ld_created = (ld, rd)" by (cases ld_created)
  obtain ld' rd' where u: "ld_overflow = (ld', rd')" by (cases ld_overflow)
  then have "updateLDObjectList (message_at 1 (replicate 49 (normalizeLDObject None))) None
       default_settings_LD 5 (ld, rd) = (ld', rd')" by (simp add: ld_overflow_def c)
  note f = updateLDObjectList_facts [OF this]
  from f(1,2,7,10) ld_created_capacity show ?thesis
    unfolding u c by (simp add: message_at_def)
qed

text \<open>
  C6, as amended. After two updates in a row the mesh count and the number of labels
  held are the number of objects of the second message, and the second update has
  released as many labels as the first message had objects: after 3 objects and then 1,
  the mesh count is 1, one label is held and 3 labels are released, the 2 excess labels
  of the first message and the label that the second update acquired itself.
\<close>

theorem labels_released_follow_previous_count:
  "mesh_count (fst (updateLDObjectList ol2 om2 sts2 rt2 (updateLDObjectList ol1 om1 sts1 rt1 (ld, rd))))
     = length (list_objects ol2)
   \<and> length (labels (fst (updateLDObjectList ol2 om2 sts2 rt2 (updateLDObjectList ol1 om1 sts1 rt1 (ld, rd)))))
     = length (list_objects ol2)
   \<and> length (pool_released (snd (updateLDObjectList ol2 om2 sts2 rt2
         (updateLDObjectList ol1 om1 sts1 rt1 (ld, rd)))))
     = length (pool_released (snd (updateLDObjectList ol1 om1 sts1 rt1 (ld, rd))))
       + length (list_objects ol1)"
proof -
  obtain ld1 rd1 where u1: "updateLDObjectList ol1 om1 sts1 rt1 (ld, rd) = (ld1, rd1)"
    by (cases "updateLDObjectList ol1 om1 sts1 rt1 (ld, rd)")
  obtain ld2 rd2 where u2: "updateLDObjectList ol2 om2 sts2 rt2 (ld1, rd1) = (ld2, rd2)"
    by (cases "updateLDObjectList ol2 om2 sts2 rt2 (ld1, rd1)")
  note f1 = updateLDObjectList_facts [OF u1]
  note f2 = updateLDObjectList_facts [OF u2]
  from f1(3) f2(1,3,4) show ?thesis unfolding u1 u2 by simp
qed

lemma set_label_ref: "label_ref (set_label sts obj l) = label_ref l"
  by (simp add: set_label_def)

text \<open>
  C6 as stated fails: after 3 objects and then 1 the mesh count is 1, and the second
  update has released three labels, not two.
\<close>

theorem labels_released_counterexample:
  "length (list_objects (ud_objectList (fst ld_three))) = 3
   \<and> map label_ref (labels (fst ld_three)) = [5, 6, 7]
   \<and> pool_released (snd ld_three) = []
   \<and> length (list_objects (ud_objectList (fst ld_three_one))) = 1
   \<and> mesh_count (fst ld_three_one) = 1
   \<and> map label_ref (labels (fst ld_three_one)) = [5]
   \<and> pool_released (snd ld_three_one) = [6, 7, 9]
   \<and> length (pool_released (snd ld_three_one)) \<noteq> 2"
  by (simp add: ld_three_one_def ld_three_def ld_eval numeral_3_eq_3 set_label_ref eval_nat_numeral)

section \<open>The placement tool\<close>

lemma render_fields:
  "state (render t) = state t" "listeners (render t) = listeners t"
  "point1 (render t) = point1 t" "point2 (render t) = point2 t"
  "circle1 (render t) = circle1 t" "circle2 (render t) = circle2 t"
  "cuboid (render t) = cuboid t" "cuboidOccluded (render t) = cuboidOccluded t"
  "next_mesh (render t) = next_mesh t"
  by (simp_all add: render_def Let_def split: option.splits)

lemma setState_Idle:
  "state (setState Idle t) = Idle"
  "listeners (setState Idle t) =
     filter (\<lambda>l. l \<noteq> (MouseMove, HandleMouseMove)) (filter (\<lambda>l. l \<noteq> (Click, HandleClick)) (listeners t))"
  "point1 (setState Idle t) = point1 t" "point2 (setState Idle t) = point2 t"
  by (simp_all add: setState_def render_fields dispatchEvent_def removeListener_def Let_def)

lemma setState_PlaceFirstPoint:
  "point1 (setState PlaceFirstPoint t) = None" "point2 (setState PlaceFirstPoint t) = None"
  by (simp_all add: setState_def render_fields dispatchEvent_def addListener_def Let_def)

lemma setState_Idle_unregistered:
  "\<not> registered Click HandleClick (setState Idle t)"
  "\<not> registered MouseMove HandleMouseMove (setState Idle t)"
  by (simp_all add: registered_def setState_Idle)

lemmas tool_eval = tool_first_placed_def tool_completed_def tool_restarted_def new_DrawCuboidTool_def
  startDrawing_def stopDrawing_def handleClick_def setState_def render_def render_circle_def
  dispatchEvent_def addListener_def removeListener_def new_Mesh_def point_at_def createBox_def
  registered_def Let_def

text \<open>
  C8, as amended. \<^verbatim>\<open>stopDrawing()\<close> from any state leaves the tool idle with both points
  cleared and neither listener registered. The completing click in
  \<^verbatim>\<open>place-second-point\<close> leaves the tool idle with neither listener registered and
  keeps both points, the first as captured and the second at the click; they are
  cleared by the next \<^verbatim>\<open>startDrawing()\<close>.
\<close>

theorem leaving_placement_state:
  "state (stopDrawing t) = Idle
   \<and> point1 (stopDrawing t) = None \<and> point2 (stopDrawing t) = None
   \<and> \<not> registered Click HandleClick (stopDrawing t)
   \<and> \<not> registered MouseMove HandleMouseMove (stopDrawing t)
   \<and> (state t = PlaceSecondPoint \<longrightarrow>
         state (handleClick (Some w) t) = Idle
       \<and> \<not> registered Click HandleClick (handleClick (Some w) t)
       \<and> \<not> registered MouseMove HandleMouseMove (handleClick (Some w) t)
       \<and> point1 (handleClick (Some w) t) = point1 t
       \<and> point2 (handleClick (Some w) t) = Some w)
   \<and> point1 (startDrawing t) = None \<and> point2 (startDrawing t) = None"
proof (intro conjI impI)
  assume s: "state t = PlaceSecondPoint"
  have h: "handleClick (Some w) t = render (setState Idle (t\<lparr>point2 := Some w, point2NeedsUpdate := True\<rparr>))"
    using s by (simp add: handleClick_def)
  show "state (handleClick (Some w) t) = Idle" by (simp add: h render_fields setState_Idle)
  show "\<not> registered Click HandleClick (handleClick (Some w) t)"
    using setState_Idle_unregistered(1) [of "t\<lparr>point2 := Some w, point2NeedsUpdate := True\<rparr>"]
    by (simp add: h registered_def render_fields)
  show "\<not> registered MouseMove HandleMouseMove (handleClick (Some w) t)"
    using setState_Idle_unregistered(2) [of "t\<lparr>point2 := Some w, point2NeedsUpdate := True\<rparr>"]
    by (simp add: h registered_def render_fields)
  show "point1 (handleClick (Some w) t) = point1 t" by (simp add: h render_fields setState_Idle)
  show "point2 (handleClick (Some w) t) = Some w" by (simp add: h render_fields setState_Idle)
next
  show "\<not> registered Click HandleClick (stopDrawing t)"
    using setState_Idle_unregistered(1) [of t] by (simp add: stopDrawing_def registered_def)
  show "\<not> registered MouseMove HandleMouseMove (stopDrawing t)"
    using setState_Idle_unregistered(2) [of t] by (simp add: stopDrawing_def registered_def)
next
  show "state (stopDrawing t) = Idle" "point1 (stopDrawing t) = None" "point2 (stopDrawing t) = None"
    by (simp_all add: stopDrawing_def setState_Idle)
  show "point1 (startDrawing t) = None" "point2 (startDrawing t) = None"
    by (simp_all add: startDrawing_def Let_def setState_PlaceFirstPoint)
qed

theorem leaving_placement_state_witness:
  "state tool_first_placed = PlaceSecondPoint
   \<and> registered Click HandleClick tool_first_placed
   \<and> state (handleClick (Some (point_at 4 5 6)) tool_first_placed) = Idle
   \<and> \<not> registered Click HandleClick (handleClick (Some (point_at 4 5 6)) tool_first_placed)
   \<and> \<not> registered MouseMove HandleMouseMove (handleClick (Some (point_at 4 5 6)) tool_first_placed)
   \<and> point1 (handleClick (Some (point_at 4 5 6)) tool_first_placed) = point1 tool_first_placed
   \<and> point2 (handleClick (Some (point_at 4 5 6)) tool_first_placed) = Some (point_at 4 5 6)"
proof -
  have s: "state tool_first_placed = PlaceSecondPoint" by (simp add: tool_eval)
  have r: "registered Click HandleClick tool_first_placed" by (simp add: tool_eval)
  note t = leaving_placement_state [of tool_first_placed "point_at 4 5 6"]
  note u = t [THEN conjunct2, THEN conjunct2, THEN conjunct2, THEN conjunct2, THEN conjunct2,
      THEN conjunct1, THEN mp, OF s]
  from s r u show ?thesis by (intro conjI) (erule conjunct1 conjunct2 | assumption | simp)+
qed

text \<open>
  C8 as stated fails: after the completing second click the tool is idle and both
  captured points are still set.
\<close>

theorem leaving_placement_state_counterexample:
  "state tool_first_placed = PlaceSecondPoint
   \<and> state tool_completed = Idle
   \<and> point1 tool_completed = Some (point_at 1 2 3)
   \<and> point2 tool_completed = Some (point_at 4 5 6)
   \<and> point1 tool_completed \<noteq> None \<and> point2 tool_completed \<noteq> None"
  by (simp add: tool_eval)

text \<open>
  C9, as amended. After a \<^verbatim>\<open>_render\<close> pass the anchor circle of a missing point is
  hidden. The cuboid and its occluded twin are shown when both points are present; when
  a point is missing \<^verbatim>\<open>_render\<close> leaves them as they were.
\<close>

theorem preview_visibility:
  assumes "circle1 t \<noteq> circle2 t"
  shows "(point1 t = None \<longrightarrow> \<not> mesh_visible (meshes (render t) (circle1 (render t))))
       \<and> (point2 t = None \<longrightarrow> \<not> mesh_visible (meshes (render t) (circle2 (render t))))
       \<and> (point1 t = None \<or> point2 t = None \<longrightarrow>
            cuboid t \<noteq> circle1 t \<and> cuboid t \<noteq> circle2 t \<longrightarrow>
            meshes (render t) (cuboid (render t)) = meshes t (cuboid t))
       \<and> (point1 t = None \<or> point2 t = None \<longrightarrow>
            cuboidOccluded t \<noteq> circle1 t \<and> cuboidOccluded t \<noteq> circle2 t \<longrightarrow>
            meshes (render t) (cuboidOccluded (render t)) = meshes t (cuboidOccluded t))
       \<and> (point1 t \<noteq> None \<and> point2 t \<noteq> None \<longrightarrow>
            mesh_visible (meshes (render t) (cuboid (render t)))
          \<and> mesh_visible (meshes (render t) (cuboidOccluded (render t))))"
  using assms
  by (auto simp: render_def render_circle_def Let_def split: option.splits)

theorem preview_visibility_witness:
  "circle1 tool_restarted \<noteq> circle2 tool_restarted
   \<and> point1 tool_restarted = None \<and> point2 tool_restarted = None
   \<and> cuboid tool_restarted \<noteq> circle1 tool_restarted \<and> cuboid tool_restarted \<noteq> circle2 tool_restarted
   \<and> cuboidOccluded tool_restarted \<noteq> circle1 tool_restarted
   \<and> cuboidOccluded tool_restarted \<noteq> circle2 tool_restarted
   \<and> \<not> mesh_visible (meshes (render tool_restarted) (circle1 (render tool_restarted)))
   \<and> \<not> mesh_visible (meshes (render tool_restarted) (circle2 (render tool_restarted)))
   \<and> meshes (render tool_restarted) (cuboid (render tool_restarted))
       = meshes tool_restarted (cuboid tool_restarted)
   \<and> meshes (render tool_restarted) (cuboidOccluded (render tool_restarted))
       = meshes tool_restarted (cuboidOccluded tool_restarted)
   \<and> circle1 tool_completed \<noteq> circle2 tool_completed
   \<and> point1 tool_completed \<noteq> None \<and> point2 tool_completed \<noteq> None
   \<and> mesh_visible (meshes (render tool_completed) (cuboid (render tool_completed)))"
proof -
  have a: "circle1 tool_restarted \<noteq> circle2 tool_restarted" by (simp add: tool_eval)
  have p: "point1 tool_restarted = None" "point2 tool_restarted = None" by (simp_all add: tool_eval)
  have c: "cuboid tool_restarted \<noteq> circle1 tool_restarted" "cuboid tool_restarted \<noteq> circle2 tool_restarted"
    "cuboidOccluded tool_restarted \<noteq> circle1 tool_restarted"
    "cuboidOccluded tool_restarted \<noteq> circle2 tool_restarted"
    by (simp_all add: tool_eval)
  have a': "circle1 tool_completed \<noteq> circle2 tool_completed" by (simp add: tool_eval)
  have p': "point1 tool_completed \<noteq> None" "point2 tool_completed \<noteq> None" by (simp_all add: tool_eval)
  from preview_visibility [OF a] preview_visibility [OF a'] p c a p' a' show ?thesis by blast
qed

text \<open>
  C9 as stated fails: after a completed cuboid and a new \<^verbatim>\<open>startDrawing()\<close> both points
  are missing, and after a \<^verbatim>\<open>_render\<close> pass the cuboid of the earlier drawing is still
  visible.
\<close>

theorem preview_visibility_counterexample:
  "point1 tool_restarted = None \<and> point2 tool_restarted = None
   \<and> point1 (render tool_restarted) = None \<and> point2 (render tool_restarted) = None
   \<and> mesh_visible (meshes (render tool_restarted) (cuboid (render tool_restarted)))
   \<and> mesh_visible (meshes (render tool_restarted) (cuboidOccluded (render tool_restarted)))
   \<and> cuboid_position (render tool_restarted) = createBox (point_at 1 2 3) (point_at 4 5 6)"
  by (simp add: tool_eval)

end
